theory Spec2Isabelle
  imports Complex_Main "HOL-Library.Log_Nat"
begin

section \<open>Python floats\<close>

text \<open>
  Every number the pump stores is a Python \<^verbatim>\<open>float\<close>, an IEEE 754 binary64 value.
  A finite value is kept as a sign bit (\<open>True\<close> for negative) and an exact rational
  magnitude, so that \<open>0.0\<close> and \<open>-0.0\<close> are different values, as they are in Python.
  Arithmetic computes the exact rational result and rounds it to the nearest double,
  ties to even, with gradual underflow below \<open>2^-1022\<close> and overflow to infinity from
  \<open>2^1024\<close> on.
\<close>

datatype pyfloat = Finite bool rat | Infty bool | NaN

text \<open>\<open>ilog2 m\<close> is the binary exponent of a positive rational: \<open>2^(ilog2 m) \<le> m < 2^(ilog2 m + 1)\<close>.\<close>

definition ilog2 :: "rat \<Rightarrow> int" where
  "ilog2 m = (case quotient_of m of (p, q) \<Rightarrow>
     (let d = bitlen p - bitlen q in if 2 powi d \<le> m then d else d - 1))"

definition round_half_even :: "rat \<Rightarrow> int" where
  "round_half_even q = (let f = \<lfloor>q\<rfloor>; r = q - of_int f in
     if r < 1 / 2 then f else if 1 / 2 < r then f + 1 else if even f then f else f + 1)"

text \<open>The exponent of the unit in the last place: 53 significant bits, smallest exponent -1022.\<close>

definition ulp_exp :: "rat \<Rightarrow> int" where
  "ulp_exp m = max (ilog2 m) (- 1022) - 52"

text \<open>
  \<open>round_mag m\<close> is the multiple of the unit in the last place nearest to the positive
  magnitude \<open>m\<close>; \<open>round_to s m\<close> rounds the magnitude \<open>m \<ge> 0\<close>, attaches the sign
  \<open>s\<close> and overflows to infinity.
\<close>

definition round_mag :: "rat \<Rightarrow> rat" where
  "round_mag m = of_int (round_half_even (m / 2 powi ulp_exp m)) * 2 powi ulp_exp m"

definition round_to :: "bool \<Rightarrow> rat \<Rightarrow> pyfloat" where
  "round_to s m =
     (if m = 0 then Finite s 0
      else if 2 ^ 1024 \<le> round_mag m then Infty s
      else Finite s (round_mag m))"

text \<open>
  A decimal literal of the source denotes the double nearest to it. The integer literal
  \<^verbatim>\<open>1000\<close> meets a float in every place it occurs and converts to \<open>1000.0\<close> exactly,
  written \<open>Finite False 1000\<close>.
\<close>

definition lit :: "rat \<Rightarrow> pyfloat" where
  "lit q = round_to False q"

definition signed :: "bool \<Rightarrow> rat \<Rightarrow> rat" where
  "signed s m = (if s then - m else m)"

text \<open>
  A value of the datatype is a double when its magnitude is non-negative and rounding
  leaves it unchanged.
\<close>

fun is_double :: "pyfloat \<Rightarrow> bool" where
  "is_double (Finite s m) = (0 \<le> m \<and> round_to s m = Finite s m)"
| "is_double (Infty s) = True"
| "is_double NaN = True"

text \<open>
  The exceptions the pump's methods can end with. An exception raised inside the property
  backend is kept apart from those raised by the pump's own statements; its payload
  stands for the exception object, which is passed on as it is.
\<close>

datatype error = BackendError string | ZeroDivisionError | OverflowError | AttributeError string

fun fneg :: "pyfloat \<Rightarrow> pyfloat" where
  "fneg (Finite s m) = Finite (\<not> s) m"
| "fneg (Infty s) = Infty (\<not> s)"
| "fneg NaN = NaN"

fun fadd :: "pyfloat \<Rightarrow> pyfloat \<Rightarrow> pyfloat" where
  "fadd NaN y = NaN"
| "fadd x NaN = NaN"
| "fadd (Infty s) (Infty t) = (if s = t then Infty s else NaN)"
| "fadd (Infty s) (Finite t n) = Infty s"
| "fadd (Finite s m) (Infty t) = Infty t"
| "fadd (Finite s m) (Finite t n) =
     (let z = signed s m + signed t n in
      if z = 0 then Finite (s \<and> t) 0 else round_to (z < 0) \<bar>z\<bar>)"

definition fsub :: "pyfloat \<Rightarrow> pyfloat \<Rightarrow> pyfloat" where
  "fsub x y = fadd x (fneg y)"

fun fmul :: "pyfloat \<Rightarrow> pyfloat \<Rightarrow> pyfloat" where
  "fmul NaN y = NaN"
| "fmul x NaN = NaN"
| "fmul (Infty s) (Infty t) = Infty (s \<noteq> t)"
| "fmul (Infty s) (Finite t n) = (if n = 0 then NaN else Infty (s \<noteq> t))"
| "fmul (Finite s m) (Infty t) = (if m = 0 then NaN else Infty (s \<noteq> t))"
| "fmul (Finite s m) (Finite t n) = round_to (s \<noteq> t) (m * n)"

text \<open>
  Python's \<^verbatim>\<open>/\<close> on floats raises \<^verbatim>\<open>ZeroDivisionError\<close> when the divisor is
  \<open>0.0\<close> or \<open>-0.0\<close>, whatever the dividend; otherwise it is the IEEE division \<open>fquot\<close>.
\<close>

fun is_zero :: "pyfloat \<Rightarrow> bool" where
  "is_zero (Finite s m) = (m = 0)"
| "is_zero (Infty s) = False"
| "is_zero NaN = False"

fun fquot :: "pyfloat \<Rightarrow> pyfloat \<Rightarrow> pyfloat" where
  "fquot NaN y = NaN"
| "fquot x NaN = NaN"
| "fquot (Infty s) (Infty t) = NaN"
| "fquot (Infty s) (Finite t n) = Infty (s \<noteq> t)"
| "fquot (Finite s m) (Infty t) = Finite (s \<noteq> t) 0"
| "fquot (Finite s m) (Finite t n) = round_to (s \<noteq> t) (m / n)"

definition fdiv :: "pyfloat \<Rightarrow> pyfloat \<Rightarrow> error + pyfloat" where
  "fdiv x y = (if is_zero y then Inl ZeroDivisionError else Inr (fquot x y))"

text \<open>
  \<^verbatim>\<open>x ** k\<close> for a float \<open>x\<close> and a literal integer exponent \<open>k\<close>. CPython answers the
  cases of exponent zero, NaN, an infinite base, a zero base and the bases \<open>1.0\<close> and
  \<open>-1.0\<close> itself. For any other finite base it calls the C library's \<^verbatim>\<open>pow\<close> on the
  magnitude of the base, raises \<^verbatim>\<open>OverflowError\<close> when the result is infinite, and
  negates the result for a negative base and an odd exponent. The library's \<^verbatim>\<open>pow\<close> is
  not part of the repository and does not promise the correctly rounded power: like the
  property backend it is a parameter, a function from the magnitude of the base and the
  exponent to a float.
\<close>

type_synonym libm_pow = "rat \<Rightarrow> nat \<Rightarrow> pyfloat"

definition fpow :: "libm_pow \<Rightarrow> pyfloat \<Rightarrow> nat \<Rightarrow> error + pyfloat" where
  "fpow pw x k =
     (if k = 0 then Inr (Finite False 1)
      else (case x of
              NaN \<Rightarrow> Inr NaN
            | Infty s \<Rightarrow> Inr (Infty (s \<and> odd k))
            | Finite s m \<Rightarrow>
                if m = 0 \<or> m = 1 then Inr (Finite (s \<and> odd k) m)
                else (case pw m k of
                        Infty _ \<Rightarrow> Inl OverflowError
                      | r \<Rightarrow> Inr (if s \<and> odd k then fneg r else r))))"

text \<open>Python's comparisons \<^verbatim>\<open>==\<close>, \<^verbatim>\<open><=\<close> and \<^verbatim>\<open><\<close>: false as soon as a NaN is involved.\<close>

fun feq :: "pyfloat \<Rightarrow> pyfloat \<Rightarrow> bool" where
  "feq (Finite s m) (Finite t n) = (signed s m = signed t n)"
| "feq (Infty s) (Infty t) = (s = t)"
| "feq x y = False"

fun fle :: "pyfloat \<Rightarrow> pyfloat \<Rightarrow> bool" where
  "fle NaN y = False"
| "fle x NaN = False"
| "fle (Infty s) (Infty t) = (s \<or> \<not> t)"
| "fle (Infty s) (Finite t n) = s"
| "fle (Finite s m) (Infty t) = (\<not> t)"
| "fle (Finite s m) (Finite t n) = (signed s m \<le> signed t n)"

fun flt :: "pyfloat \<Rightarrow> pyfloat \<Rightarrow> bool" where
  "flt NaN y = False"
| "flt x NaN = False"
| "flt (Infty s) (Infty t) = (s \<and> \<not> t)"
| "flt (Infty s) (Finite t n) = s"
| "flt (Finite s m) (Infty t) = (\<not> t)"
| "flt (Finite s m) (Finite t n) = (signed s m < signed t n)"

text \<open>\<^verbatim>\<open>math.isfinite\<close>: neither an infinity nor a NaN.\<close>

fun is_finite :: "pyfloat \<Rightarrow> bool" where
  "is_finite (Finite s m) = True"
| "is_finite (Infty s) = False"
| "is_finite NaN = False"

text \<open>Zero of either sign, a positive double or plus infinity.\<close>

fun nonneg :: "pyfloat \<Rightarrow> bool" where
  "nonneg (Finite s m) = (0 \<le> m \<and> (if s then m = 0 else True))"
| "nonneg (Infty s) = (\<not> s)"
| "nonneg NaN = False"

section \<open>The pump object\<close>

text \<open>
  An instance of \<^verbatim>\<open>Pump\<close> is its attribute dictionary: one optional value per attribute
  the class ever assigns, \<open>None\<close> while the attribute does not exist. Reading an
  attribute that does not exist raises \<^verbatim>\<open>AttributeError\<close>. The numeric arguments of
  the methods are floats and \<^verbatim>\<open>medium\<close> is a string.
\<close>

record pump =
  T_in :: "pyfloat option"
  p_in :: "pyfloat option"
  p_out :: "pyfloat option"
  mf :: "pyfloat option"
  medium :: "string option"
  h_in :: "pyfloat option"
  s_in :: "pyfloat option"
  s_out_s :: "pyfloat option"
  h_out_s :: "pyfloat option"
  T_out_s :: "pyfloat option"
  rho_in :: "pyfloat option"
  V_in :: "pyfloat option"
  eta_iP :: "pyfloat option"
  h_out :: "pyfloat option"
  T_out :: "pyfloat option"
  s_out :: "pyfloat option"
  N_iP :: "pyfloat option"
  T_in_off :: "pyfloat option"
  p_in_off :: "pyfloat option"
  p_out_off :: "pyfloat option"
  mf_off :: "pyfloat option"
  h_in_off :: "pyfloat option"
  s_in_off :: "pyfloat option"
  s_out_s_off :: "pyfloat option"
  h_out_s_off :: "pyfloat option"
  T_out_s_off :: "pyfloat option"
  rho_in_off :: "pyfloat option"
  V_in_off :: "pyfloat option"
  eta_iP_off :: "pyfloat option"
  h_out_off :: "pyfloat option"
  T_out_off :: "pyfloat option"
  s_out_off :: "pyfloat option"
  N_iP_off :: "pyfloat option"

definition new_object :: pump where
  "new_object = \<lparr>T_in = None, p_in = None, p_out = None, mf = None, medium = None,
     h_in = None, s_in = None, s_out_s = None, h_out_s = None, T_out_s = None,
     rho_in = None, V_in = None, eta_iP = None, h_out = None, T_out = None, s_out = None,
     N_iP = None, T_in_off = None, p_in_off = None, p_out_off = None, mf_off = None,
     h_in_off = None, s_in_off = None, s_out_s_off = None, h_out_s_off = None,
     T_out_s_off = None, rho_in_off = None, V_in_off = None, eta_iP_off = None,
     h_out_off = None, T_out_off = None, s_out_off = None, N_iP_off = None\<rparr>"

text \<open>
  The property backend \<^verbatim>\<open>CP.PropsSI(output, name1, value1, name2, value2, fluid)\<close> is
  not part of the repository: it is a parameter of every method, a function that returns
  a float or raises. \<open>Inl x\<close> is the backend raising its exception \<open>x\<close>, which the
  pump passes on as \<open>BackendError x\<close>.
\<close>

type_synonym backend =
  "string \<Rightarrow> string \<Rightarrow> pyfloat \<Rightarrow> string \<Rightarrow> pyfloat \<Rightarrow> string \<Rightarrow> string + pyfloat"

definition PropsSI ::
  "backend \<Rightarrow> string \<Rightarrow> string \<Rightarrow> pyfloat \<Rightarrow> string \<Rightarrow> pyfloat \<Rightarrow> string \<Rightarrow> error + pyfloat" where
  "PropsSI cp out n1 v1 n2 v2 fluid =
     (case cp out n1 v1 n2 v2 fluid of Inl x \<Rightarrow> Inl (BackendError x) | Inr y \<Rightarrow> Inr y)"

subsection \<open>Expressions and statements\<close>

text \<open>
  An expression evaluates to a value or raises; evaluation goes left to right and stops
  at the first exception. A statement \<^verbatim>\<open>self.x = e\<close> stores the value when \<open>e\<close> has
  one, and otherwise leaves the object as it is and passes the exception on. A method
  body runs its statements in order and stops at the first exception, with everything
  assigned so far still in the object.
\<close>

definition bnd :: "error + 'a \<Rightarrow> ('a \<Rightarrow> error + 'b) \<Rightarrow> error + 'b" where
  "bnd x f = (case x of Inl e \<Rightarrow> Inl e | Inr v \<Rightarrow> f v)"

definition attr :: "string \<Rightarrow> 'a option \<Rightarrow> error + 'a" where
  "attr name x = (case x of None \<Rightarrow> Inl (AttributeError name) | Some v \<Rightarrow> Inr v)"

type_synonym stmt = "pump \<Rightarrow> pump \<times> error option"

definition assign :: "('a \<Rightarrow> pump \<Rightarrow> pump) \<Rightarrow> (pump \<Rightarrow> error + 'a) \<Rightarrow> stmt" where
  "assign store rhs p = (case rhs p of Inl e \<Rightarrow> (p, Some e) | Inr v \<Rightarrow> (store v p, None))"

fun run :: "stmt list \<Rightarrow> stmt" where
  "run [] p = (p, None)"
| "run (c # cs) p = (case c p of (p', None) \<Rightarrow> run cs p' | (p', Some e) \<Rightarrow> (p', Some e))"

subsection \<open>The methods\<close>

text \<open>
  Each method runs the list of its assignments in the order of the source, one element per
  statement. \<open>init\<close> is \<^verbatim>\<open>__init__\<close>, lines 19 to 50 of \<^verbatim>\<open>OOP_pump.py\<close>. The arguments
  carry a prime where a field has their name. Line 50 divides the argument \<^verbatim>\<open>mf\<close>, not
  the attribute.
\<close>

definition init_body :: "backend \<Rightarrow> pyfloat \<Rightarrow> pyfloat \<Rightarrow> pyfloat \<Rightarrow> pyfloat \<Rightarrow> string \<Rightarrow> stmt list" where
  "init_body cp T_in' p_in' p_out' mf' medium' = [
     assign (\<lambda>v p. p\<lparr>T_in := Some v\<rparr>) (\<lambda>p. Inr T_in'),
     assign (\<lambda>v p. p\<lparr>p_in := Some v\<rparr>) (\<lambda>p. Inr p_in'),
     assign (\<lambda>v p. p\<lparr>p_out := Some v\<rparr>) (\<lambda>p. Inr p_out'),
     assign (\<lambda>v p. p\<lparr>mf := Some v\<rparr>) (\<lambda>p. Inr mf'),
     assign (\<lambda>v p. p\<lparr>medium := Some v\<rparr>) (\<lambda>p. Inr medium'),
     assign (\<lambda>v p. p\<lparr>h_in := Some v\<rparr>) (\<lambda>p.
       bnd (attr ''T_in'' (T_in p)) (\<lambda>t.
       bnd (attr ''p_in'' (p_in p)) (\<lambda>pr.
       bnd (attr ''medium'' (medium p)) (\<lambda>md.
       bnd (PropsSI cp ''Hmass'' ''T'' (fadd t (lit 273.15)) ''P'' (fmul pr (Finite False 1000)) md) (\<lambda>y.
       fdiv y (Finite False 1000)))))),
     assign (\<lambda>v p. p\<lparr>s_in := Some v\<rparr>) (\<lambda>p.
       bnd (attr ''T_in'' (T_in p)) (\<lambda>t.
       bnd (attr ''p_in'' (p_in p)) (\<lambda>pr.
       bnd (attr ''medium'' (medium p)) (\<lambda>md.
       bnd (PropsSI cp ''Smass'' ''T'' (fadd t (lit 273.15)) ''P'' (fmul pr (Finite False 1000)) md) (\<lambda>y.
       fdiv y (Finite False 1000)))))),
     assign (\<lambda>v p. p\<lparr>s_out_s := Some v\<rparr>) (\<lambda>p. attr ''s_in'' (s_in p)),
     assign (\<lambda>v p. p\<lparr>h_out_s := Some v\<rparr>) (\<lambda>p.
       bnd (attr ''s_out_s'' (s_out_s p)) (\<lambda>s.
       bnd (attr ''p_out'' (p_out p)) (\<lambda>pr.
       bnd (attr ''medium'' (medium p)) (\<lambda>md.
       bnd (PropsSI cp ''Hmass'' ''Smass'' (fmul s (Finite False 1000)) ''P'' (fmul pr (Finite False 1000)) md) (\<lambda>y.
       fdiv y (Finite False 1000)))))),
     assign (\<lambda>v p. p\<lparr>T_out_s := Some v\<rparr>) (\<lambda>p.
       bnd (attr ''s_out_s'' (s_out_s p)) (\<lambda>s.
       bnd (attr ''p_out'' (p_out p)) (\<lambda>pr.
       bnd (attr ''medium'' (medium p)) (\<lambda>md.
       bnd (PropsSI cp ''T'' ''Smass'' (fmul s (Finite False 1000)) ''P'' (fmul pr (Finite False 1000)) md) (\<lambda>y.
       Inr (fsub y (lit 273.15))))))),
     assign (\<lambda>v p. p\<lparr>rho_in := Some v\<rparr>) (\<lambda>p.
       bnd (attr ''h_in'' (h_in p)) (\<lambda>h.
       bnd (attr ''p_in'' (p_in p)) (\<lambda>pr.
       bnd (attr ''medium'' (medium p)) (\<lambda>md.
       PropsSI cp ''Dmass'' ''Hmass'' (fmul h (Finite False 1000)) ''P'' (fmul pr (Finite False 1000)) md)))),
     assign (\<lambda>v p. p\<lparr>V_in := Some v\<rparr>) (\<lambda>p.
       bnd (attr ''rho_in'' (rho_in p)) (\<lambda>r. fdiv mf' r))]"

definition init :: "backend \<Rightarrow> pyfloat \<Rightarrow> pyfloat \<Rightarrow> pyfloat \<Rightarrow> pyfloat \<Rightarrow> string \<Rightarrow> stmt" where
  "init cp T_in' p_in' p_out' mf' medium' = run (init_body cp T_in' p_in' p_out' mf' medium')"

text \<open>
  The call \<^verbatim>\<open>Pump(T_in, p_in, p_out, mf, medium)\<close> creates an object without attributes
  and runs \<^verbatim>\<open>__init__\<close> on it. The caller gets the object only when \<^verbatim>\<open>__init__\<close>
  returns; when it raises, the caller gets the exception and no reference to the object.
\<close>

definition Pump :: "backend \<Rightarrow> pyfloat \<Rightarrow> pyfloat \<Rightarrow> pyfloat \<Rightarrow> pyfloat \<Rightarrow> string \<Rightarrow> error + pump" where
  "Pump cp T_in' p_in' p_out' mf' medium' =
     (case init cp T_in' p_in' p_out' mf' medium' new_object of
        (p, None) \<Rightarrow> Inr p
      | (p, Some e) \<Rightarrow> Inl e)"

text \<open>
  The method \<^verbatim>\<open>power\<close>, lines 78 to 82 (the name \<open>power\<close> itself is taken in HOL).
  Line 79 reads \<^verbatim>\<open>self.h_in\<close> twice and \<^verbatim>\<open>self.eta_iP\<close> once, just after line 78 has
  stored it.
\<close>

definition power_body :: "backend \<Rightarrow> pyfloat \<Rightarrow> stmt list" where
  "power_body cp eta_iP' = [
     assign (\<lambda>v p. p\<lparr>eta_iP := Some v\<rparr>) (\<lambda>p. Inr eta_iP'),
     assign (\<lambda>v p. p\<lparr>h_out := Some v\<rparr>) (\<lambda>p.
       bnd (attr ''h_in'' (h_in p)) (\<lambda>h.
       bnd (attr ''h_out_s'' (h_out_s p)) (\<lambda>hs.
       bnd (attr ''h_in'' (h_in p)) (\<lambda>h'.
       bnd (attr ''eta_iP'' (eta_iP p)) (\<lambda>eta.
       bnd (fdiv (fsub hs h') eta) (\<lambda>q.
       Inr (fadd h q))))))),
     assign (\<lambda>v p. p\<lparr>T_out := Some v\<rparr>) (\<lambda>p.
       bnd (attr ''h_out'' (h_out p)) (\<lambda>h.
       bnd (attr ''p_out'' (p_out p)) (\<lambda>pr.
       bnd (attr ''medium'' (medium p)) (\<lambda>md.
       bnd (PropsSI cp ''T'' ''Hmass'' (fmul h (Finite False 1000)) ''P'' (fmul pr (Finite False 1000)) md) (\<lambda>y.
       Inr (fsub y (lit 273.15))))))),
     assign (\<lambda>v p. p\<lparr>s_out := Some v\<rparr>) (\<lambda>p.
       bnd (attr ''T_out'' (T_out p)) (\<lambda>t.
       bnd (attr ''p_out'' (p_out p)) (\<lambda>pr.
       bnd (attr ''medium'' (medium p)) (\<lambda>md.
       bnd (PropsSI cp ''Smass'' ''T'' (fadd t (lit 273.15)) ''P'' (fmul pr (Finite False 1000)) md) (\<lambda>y.
       fdiv y (Finite False 1000)))))),
     assign (\<lambda>v p. p\<lparr>N_iP := Some v\<rparr>) (\<lambda>p.
       bnd (attr ''mf'' (mf p)) (\<lambda>m.
       bnd (attr ''h_out'' (h_out p)) (\<lambda>ho.
       bnd (attr ''h_in'' (h_in p)) (\<lambda>h.
       Inr (fmul m (fsub ho h))))))]"

definition power_pump :: "backend \<Rightarrow> pyfloat \<Rightarrow> stmt" where
  "power_pump cp eta_iP' = run (power_body cp eta_iP')"

text \<open>
  The right-hand side of the efficiency correction, line 106. The source writes the flow ratio
  \<^verbatim>\<open>self.V_in/self.V_in_off\<close> three times and evaluates it three times; the read of
  \<^verbatim>\<open>self.eta_iP\<close> comes last, after the whole polynomial.
\<close>

definition eta_iP_off_rhs :: "libm_pow \<Rightarrow> pump \<Rightarrow> error + pyfloat" where
  "eta_iP_off_rhs pw p =
     bnd (attr ''V_in'' (V_in p)) (\<lambda>v1.
     bnd (attr ''V_in_off'' (V_in_off p)) (\<lambda>w1.
     bnd (fdiv v1 w1) (\<lambda>r1.
     bnd (fpow pw r1 3) (\<lambda>c3.
     bnd (attr ''V_in'' (V_in p)) (\<lambda>v2.
     bnd (attr ''V_in_off'' (V_in_off p)) (\<lambda>w2.
     bnd (fdiv v2 w2) (\<lambda>r2.
     bnd (fpow pw r2 2) (\<lambda>c2.
     bnd (attr ''V_in'' (V_in p)) (\<lambda>v3.
     bnd (attr ''V_in_off'' (V_in_off p)) (\<lambda>w3.
     bnd (fdiv v3 w3) (\<lambda>r3.
     bnd (attr ''eta_iP'' (eta_iP p)) (\<lambda>eta.
     Inr (fmul
            (fadd (fadd (fsub (fmul (fneg (lit 0.168)) c3) (fmul (lit 0.0336) c2))
                        (fmul (lit 0.6317) r3))
                  (lit 0.5699))
            eta)))))))))))))"

text \<open>
  The method \<^verbatim>\<open>off_design\<close>, lines 91 to 111. Line 103 passes the argument
  \<^verbatim>\<open>p_in_off\<close> and line 104 divides the argument \<^verbatim>\<open>mf_off\<close>, not the attributes.
\<close>

definition off_design_body :: "backend \<Rightarrow> libm_pow \<Rightarrow> pyfloat \<Rightarrow> pyfloat \<Rightarrow> pyfloat \<Rightarrow> pyfloat \<Rightarrow> stmt list" where
  "off_design_body cp pw T_in_off' p_in_off' p_out_off' mf_off' = [
     assign (\<lambda>v p. p\<lparr>T_in_off := Some v\<rparr>) (\<lambda>p. Inr T_in_off'),
     assign (\<lambda>v p. p\<lparr>p_in_off := Some v\<rparr>) (\<lambda>p. Inr p_in_off'),
     assign (\<lambda>v p. p\<lparr>p_out_off := Some v\<rparr>) (\<lambda>p. Inr p_out_off'),
     assign (\<lambda>v p. p\<lparr>mf_off := Some v\<rparr>) (\<lambda>p. Inr mf_off'),
     assign (\<lambda>v p. p\<lparr>h_in_off := Some v\<rparr>) (\<lambda>p.
       bnd (attr ''T_in_off'' (T_in_off p)) (\<lambda>t.
       bnd (attr ''p_in_off'' (p_in_off p)) (\<lambda>pr.
       bnd (attr ''medium'' (medium p)) (\<lambda>md.
       bnd (PropsSI cp ''Hmass'' ''T'' (fadd t (lit 273.15)) ''P'' (fmul pr (Finite False 1000)) md) (\<lambda>y.
       fdiv y (Finite False 1000)))))),
     assign (\<lambda>v p. p\<lparr>s_in_off := Some v\<rparr>) (\<lambda>p.
       bnd (attr ''T_in_off'' (T_in_off p)) (\<lambda>t.
       bnd (attr ''p_in_off'' (p_in_off p)) (\<lambda>pr.
       bnd (attr ''medium'' (medium p)) (\<lambda>md.
       bnd (PropsSI cp ''Smass'' ''T'' (fadd t (lit 273.15)) ''P'' (fmul pr (Finite False 1000)) md) (\<lambda>y.
       fdiv y (Finite False 1000)))))),
     assign (\<lambda>v p. p\<lparr>s_out_s_off := Some v\<rparr>) (\<lambda>p. attr ''s_in_off'' (s_in_off p)),
     assign (\<lambda>v p. p\<lparr>h_out_s_off := Some v\<rparr>) (\<lambda>p.
       bnd (attr ''s_out_s_off'' (s_out_s_off p)) (\<lambda>s.
       bnd (attr ''p_out_off'' (p_out_off p)) (\<lambda>pr.
       bnd (attr ''medium'' (medium p)) (\<lambda>md.
       bnd (PropsSI cp ''Hmass'' ''Smass'' (fmul s (Finite False 1000)) ''P'' (fmul pr (Finite False 1000)) md) (\<lambda>y.
       fdiv y (Finite False 1000)))))),
     assign (\<lambda>v p. p\<lparr>T_out_s_off := Some v\<rparr>) (\<lambda>p.
       bnd (attr ''s_out_s_off'' (s_out_s_off p)) (\<lambda>s.
       bnd (attr ''p_out_off'' (p_out_off p)) (\<lambda>pr.
       bnd (attr ''medium'' (medium p)) (\<lambda>md.
       bnd (PropsSI cp ''T'' ''Smass'' (fmul s (Finite False 1000)) ''P'' (fmul pr (Finite False 1000)) md) (\<lambda>y.
       Inr (fsub y (lit 273.15))))))),
     assign (\<lambda>v p. p\<lparr>rho_in_off := Some v\<rparr>) (\<lambda>p.
       bnd (attr ''h_in_off'' (h_in_off p)) (\<lambda>h.
       bnd (attr ''medium'' (medium p)) (\<lambda>md.
       PropsSI cp ''Dmass'' ''Hmass'' (fmul h (Finite False 1000)) ''P'' (fmul p_in_off' (Finite False 1000)) md))),
     assign (\<lambda>v p. p\<lparr>V_in_off := Some v\<rparr>) (\<lambda>p.
       bnd (attr ''rho_in_off'' (rho_in_off p)) (\<lambda>r. fdiv mf_off' r)),
     assign (\<lambda>v p. p\<lparr>eta_iP_off := Some v\<rparr>) (eta_iP_off_rhs pw),
     assign (\<lambda>v p. p\<lparr>h_out_off := Some v\<rparr>) (\<lambda>p.
       bnd (attr ''h_in_off'' (h_in_off p)) (\<lambda>h.
       bnd (attr ''h_out_s_off'' (h_out_s_off p)) (\<lambda>hs.
       bnd (attr ''h_in_off'' (h_in_off p)) (\<lambda>h'.
       bnd (attr ''eta_iP_off'' (eta_iP_off p)) (\<lambda>eta.
       bnd (fdiv (fsub hs h') eta) (\<lambda>q.
       Inr (fadd h q))))))),
     assign (\<lambda>v p. p\<lparr>T_out_off := Some v\<rparr>) (\<lambda>p.
       bnd (attr ''h_out_off'' (h_out_off p)) (\<lambda>h.
       bnd (attr ''p_out_off'' (p_out_off p)) (\<lambda>pr.
       bnd (attr ''medium'' (medium p)) (\<lambda>md.
       bnd (PropsSI cp ''T'' ''Hmass'' (fmul h (Finite False 1000)) ''P'' (fmul pr (Finite False 1000)) md) (\<lambda>y.
       Inr (fsub y (lit 273.15))))))),
     assign (\<lambda>v p. p\<lparr>s_out_off := Some v\<rparr>) (\<lambda>p.
       bnd (attr ''T_out_off'' (T_out_off p)) (\<lambda>t.
       bnd (attr ''p_out_off'' (p_out_off p)) (\<lambda>pr.
       bnd (attr ''medium'' (medium p)) (\<lambda>md.
       bnd (PropsSI cp ''Smass'' ''T'' (fadd t (lit 273.15)) ''P'' (fmul pr (Finite False 1000)) md) (\<lambda>y.
       fdiv y (Finite False 1000)))))),
     assign (\<lambda>v p. p\<lparr>N_iP_off := Some v\<rparr>) (\<lambda>p.
       bnd (attr ''mf_off'' (mf_off p)) (\<lambda>m.
       bnd (attr ''h_out_off'' (h_out_off p)) (\<lambda>ho.
       bnd (attr ''h_in_off'' (h_in_off p)) (\<lambda>h.
       Inr (fmul m (fsub ho h))))))]"

definition off_design :: "backend \<Rightarrow> libm_pow \<Rightarrow> pyfloat \<Rightarrow> pyfloat \<Rightarrow> pyfloat \<Rightarrow> pyfloat \<Rightarrow> stmt" where
  "off_design cp pw T_in_off' p_in_off' p_out_off' mf_off' = run (off_design_body cp pw T_in_off' p_in_off' p_out_off' mf_off')"

section \<open>The correction curve, a library and stub backends\<close>

text \<open>
  The correction factor as the specification writes it,
  \<open>f(r) = -0.168 r^3 - 0.0336 r^2 + 0.6317 r + 0.5699\<close>, in float arithmetic.
\<close>

definition correction :: "libm_pow \<Rightarrow> pyfloat \<Rightarrow> error + pyfloat" where
  "correction pw r =
     bnd (fpow pw r 3) (\<lambda>c3.
     bnd (fpow pw r 2) (\<lambda>c2.
     Inr (fadd (fadd (fsub (fmul (fneg (lit 0.168)) c3) (fmul (lit 0.0336) c2))
                     (fmul (lit 0.6317) r))
               (lit 0.5699))))"

text \<open>
  A library whose \<^verbatim>\<open>pow\<close> is correctly rounded, used to run the methods on concrete
  inputs. The runs below use it on the base \<open>0.5\<close>, whose powers are doubles, and on a
  base whose cube is beyond the largest double.
\<close>

definition rounded_pow :: libm_pow where
  "rounded_pow m k = round_to False (m ^ k)"

text \<open>
  A deterministic backend with fixed values, used to run the methods on concrete inputs.
  It knows three fluids. For \<open>Water\<close> every lookup the pump makes has a value. For
  \<open>Toluene\<close> the two enthalpies are small, 120 and 1780 J/kg. For \<open>R245fa\<close> the
  lookup of a temperature from an enthalpy has no solution.
\<close>

definition stub :: backend where
  "stub out n1 v1 n2 v2 fluid =
     (if fluid \<noteq> ''Water'' \<and> fluid \<noteq> ''Toluene'' \<and> fluid \<noteq> ''R245fa'' then
        Inl ''unknown fluid''
      else if out = ''Hmass'' then
        (if n1 = ''T'' then Inr (Finite False (if fluid = ''Toluene'' then 120 else 104920))
         else Inr (Finite False (if fluid = ''Toluene'' then 1780 else 105320)))
      else if out = ''Smass'' then Inr (Finite False 367)
      else if out = ''T'' then
        (if n1 = ''Hmass'' \<and> fluid = ''R245fa'' then Inl ''no solution''
         else Inr (Finite False 298))
      else if out = ''Dmass'' then Inr (Finite False 1000)
      else Inl ''unknown output'')"

text \<open>
  The pump \<^verbatim>\<open>Pump(25.0, 100.0, 500.0, 1.0, fluid)\<close> over the stub backend, as
  \<^verbatim>\<open>__init__\<close> leaves it.
\<close>

definition stub_pump :: "string \<Rightarrow> pump" where
  "stub_pump fluid =
     fst (init stub (Finite False 25) (Finite False 100) (Finite False 500) (Finite False 1)
            fluid new_object)"

text \<open>The water pump after \<^verbatim>\<open>power(0.5)\<close>.\<close>

definition powered_pump :: pump where
  "powered_pump = fst (power_pump stub (Finite False (1 / 2)) (stub_pump ''Water''))"

text \<open>And after \<^verbatim>\<open>off_design(25.0, 100.0, 500.0, 1.0)\<close>, the design point again.\<close>

definition off_pump :: pump where
  "off_pump =
     fst (off_design stub rounded_pow (Finite False 25) (Finite False 100) (Finite False 500)
            (Finite False 1) powered_pump)"

text \<open>The pump of a fluid after \<^verbatim>\<open>power(1.0)\<close>.\<close>

definition ideal_pump :: "string \<Rightarrow> pump" where
  "ideal_pump fluid = fst (power_pump stub (Finite False 1) (stub_pump fluid))"


text \<open>
  The water pump after \<^verbatim>\<open>off_design(25.0, 100.0, 500.0, 1.0)\<close> called before any
  \<^verbatim>\<open>power\<close>.
\<close>

definition early_pump :: pump where
  "early_pump =
     fst (off_design stub rounded_pow (Finite False 25) (Finite False 100) (Finite False 500)
            (Finite False 1) (stub_pump ''Water''))"

text \<open>
  The powered water pump after \<^verbatim>\<open>off_design(25.0, 100.0, 500.0, 2.0)\<close>: twice the design
  mass flow, so the flow ratio \<^verbatim>\<open>V_in/V_in_off\<close> is \<open>0.5\<close>.
\<close>

definition half_pump :: pump where
  "half_pump =
     fst (off_design stub rounded_pow (Finite False 25) (Finite False 100) (Finite False 500)
            (Finite False 2) powered_pump)"

text \<open>
  The powered water pump after \<^verbatim>\<open>off_design(25.0, 100.0, 500.0, 1000*2.0**-500)\<close>: the
  off-design flow is \<open>2^-500\<close>, nonzero, and the cube of the flow ratio is beyond the
  largest double.
\<close>

definition overflow_pump :: pump where
  "overflow_pump =
     fst (off_design stub rounded_pow (Finite False 25) (Finite False 100) (Finite False 500)
            (Finite False (125 / 2 ^ 497)) powered_pump)"

text \<open>
  A backend whose every lookup is \<open>1000.0\<close>, the pump
  \<^verbatim>\<open>Pump(25.0, 100.0, 100.0, float('inf'), 'Water')\<close> over it, which has \<open>h_out_s = h_in\<close>,
  and that pump after \<^verbatim>\<open>power(0.5)\<close>.
\<close>

definition flat :: backend where
  "flat out n1 v1 n2 v2 fluid = Inr (Finite False 1000)"

definition flat_pump :: pump where
  "flat_pump =
     fst (init flat (Finite False 25) (Finite False 100) (Finite False 100) (Infty False)
            ''Water'' new_object)"

definition nan_pump :: pump where
  "nan_pump = fst (power_pump flat (Finite False (1 / 2)) flat_pump)"

section \<open>Running a method body\<close>

declare run.simps [simp del]

lemma run_Cons_ok:
  "run (c # cs) p = (p', None) \<longleftrightarrow> (\<exists>q. c p = (q, None) \<and> run cs q = (p', None))"
  by (auto simp: run.simps split: prod.splits option.splits)

lemma run_Nil_ok: "run [] p = (p', None) \<longleftrightarrow> p' = p"
  by (auto simp: run.simps)

lemma run_Cons_cases:
  assumes "run (c # cs) p = (p', r)"
  obtains e where "c p = (p', Some e)" and "r = Some e"
        | q where "c p = (q, None)" and "run cs q = (p', r)"
  using assms by (auto simp: run.simps split: prod.splits option.splits)

lemma assign_ok:
  "assign store rhs p = (q, None) \<longleftrightarrow> (\<exists>v. rhs p = Inr v \<and> q = store v p)"
  by (auto simp: assign_def split: sum.splits)

lemma assign_fail:
  "assign store rhs p = (q, Some e) \<longleftrightarrow> rhs p = Inl e \<and> q = p"
  by (auto simp: assign_def split: sum.splits)

lemma bnd_Inr: "bnd x f = Inr y \<longleftrightarrow> (\<exists>v. x = Inr v \<and> f v = Inr y)"
  by (auto simp: bnd_def split: sum.splits)

lemma bnd_Inl: "bnd x f = Inl e \<longleftrightarrow> x = Inl e \<or> (\<exists>v. x = Inr v \<and> f v = Inl e)"
  by (auto simp: bnd_def split: sum.splits)

lemma attr_Inr: "attr name x = Inr v \<longleftrightarrow> x = Some v"
  by (auto simp: attr_def split: option.splits)

lemma attr_Inl: "attr name x = Inl e \<longleftrightarrow> x = None \<and> e = AttributeError name"
  by (auto simp: attr_def split: option.splits)

lemma PropsSI_Inl:
  "PropsSI cp out n1 v1 n2 v2 fluid = Inl e \<longleftrightarrow>
     (\<exists>x. cp out n1 v1 n2 v2 fluid = Inl x \<and> e = BackendError x)"
  by (auto simp: PropsSI_def split: sum.splits)

lemma fdiv_Inl: "fdiv x y = Inl e \<longleftrightarrow> is_zero y \<and> e = ZeroDivisionError"
  by (auto simp: fdiv_def)

lemma fdiv_Inr: "fdiv x y = Inr q \<longleftrightarrow> \<not> is_zero y \<and> q = fquot x y"
  by (auto simp: fdiv_def)

lemma fpow_Inl: "fpow pw x k = Inl e \<Longrightarrow> e = OverflowError"
  by (auto simp: fpow_def split: if_splits pyfloat.splits)

lemmas exec_ok = run_Cons_ok run_Nil_ok assign_ok bnd_Inr attr_Inr

text \<open>What every statement of a body leaves alone, the body leaves alone.\<close>

lemma run_frame:
  assumes "\<And>c q. c \<in> set cs \<Longrightarrow> g (fst (c q)) = g q"
  shows "g (fst (run cs p)) = g p"
  using assms
proof (induction cs arbitrary: p)
  case Nil
  then show ?case by (simp add: run.simps)
next
  case (Cons c cs)
  have step: "g (fst (c p)) = g p" using Cons.prems by simp
  show ?case
  proof (cases "c p")
    case (Pair q r)
    show ?thesis
    proof (cases r)
      case None
      with Pair Cons step show ?thesis by (simp add: run.simps)
    next
      case (Some e)
      with Pair step show ?thesis by (simp add: run.simps)
    qed
  qed
qed

lemma assign_frame:
  assumes "\<And>v q. g (store v q) = g q"
  shows "g (fst (assign store rhs p)) = g p"
  using assms by (simp add: assign_def split: sum.splits)

lemma Pump_Inr:
  "Pump cp T P Po m md = Inr p \<longleftrightarrow> init cp T P Po m md new_object = (p, None)"
  by (auto simp: Pump_def split: prod.splits option.splits)

lemma off_design_eta:
  assumes "off_design cp pw a b c d p = (p', None)" and "eta_iP p = Some eta" and "V_in p = Some v"
  shows "\<exists>w r f. V_in_off p' = Some w \<and> \<not> is_zero w \<and> fdiv v w = Inr r \<and> correction pw r = Inr f
           \<and> eta_iP_off p' = Some (fmul f eta)"
  using assms
  by (auto simp: off_design_def off_design_body_def eta_iP_off_rhs_def correction_def exec_ok fdiv_Inr)

lemma power_rerun:
  assumes "power_pump cp eta p = (p', r)"
  shows "power_pump cp eta p' = (p', r)"
  using assms unfolding power_pump_def power_body_def
  apply (elim run_Cons_cases; clarsimp simp: assign_ok assign_fail run.simps)
  apply (simp_all add: assign_def)
  done

lemma run_Nil_fail: "run [] p = (p', Some e) \<longleftrightarrow> False"
  by (simp add: run.simps)




text \<open>
  A body that fails stops at a statement \<open>k\<close>, which leaves the object as it found it: the
  object after the call is the object after the first \<open>k\<close> statements.
\<close>

lemma run_fail_prefix:
  assumes "run cs p = (p', Some e)"
    and "\<And>c q q' x. c \<in> set cs \<Longrightarrow> c q = (q', Some x) \<Longrightarrow> q' = q"
  shows "\<exists>k<length cs. run (take k cs) p = (p', None) \<and> (cs ! k) p' = (p', Some e)"
  using assms
proof (induction cs arbitrary: p)
  case Nil
  then show ?case by (simp add: run.simps)
next
  case (Cons c cs)
  from Cons.prems(1) show ?case
  proof (cases rule: run_Cons_cases)
    case (1 x)
    then have "p' = p" using Cons.prems(2) [of c p p' x] by simp
    with 1 have "run (take 0 (c # cs)) p = (p', None) \<and> ((c # cs) ! 0) p' = (p', Some e)"
      by (simp add: run.simps)
    then show ?thesis by blast
  next
    case (2 q)
    have "\<exists>k<length cs. run (take k cs) q = (p', None) \<and> (cs ! k) p' = (p', Some e)"
    proof (rule Cons.IH [OF 2(2)])
      fix c' r r' x assume "c' \<in> set cs" and "c' r = (r', Some x)"
      then show "r' = r" using Cons.prems(2) [of c' r r' x] by simp
    qed
    then obtain k where k: "k < length cs" "run (take k cs) q = (p', None)" "(cs ! k) p' = (p', Some e)"
      by auto
    from 2(1) k have "run (take (Suc k) (c # cs)) p = (p', None) \<and> ((c # cs) ! Suc k) p' = (p', Some e)"
      by (simp add: run.simps)
    with k(1) show ?thesis by (intro exI [of _ "Suc k"]) simp
  qed
qed


lemma off_design_body_length: "length (off_design_body cp pw a b c d) = 16"
  by (simp add: off_design_body_def)


lemma off_design_body_fail:
  assumes "c \<in> set (off_design_body cp pw a b c' d)" and "c q = (q', Some x)"
  shows "q' = q"
  using assms by (auto simp: off_design_body_def assign_fail)



text \<open>
  The first eleven statements of \<^verbatim>\<open>off_design\<close>, lines 91 to 104, when the five lookups
  succeed and the density is not zero; the efficiency correction on the object they
  leave; and the statements after it, which assign neither \<^verbatim>\<open>V_in_off\<close> nor
  \<^verbatim>\<open>eta_iP_off\<close>.
\<close>

lemma off_design_inlet:
  assumes "medium p = Some md"
    and "cp ''Hmass'' ''T'' (fadd a (lit 273.15)) ''P'' (fmul b (Finite False 1000)) md = Inr y1"
    and "cp ''Smass'' ''T'' (fadd a (lit 273.15)) ''P'' (fmul b (Finite False 1000)) md = Inr y2"
    and "cp ''Hmass'' ''Smass'' (fmul (fquot y2 (Finite False 1000)) (Finite False 1000)) ''P''
           (fmul c (Finite False 1000)) md = Inr y3"
    and "cp ''T'' ''Smass'' (fmul (fquot y2 (Finite False 1000)) (Finite False 1000)) ''P''
           (fmul c (Finite False 1000)) md = Inr y4"
    and "cp ''Dmass'' ''Hmass'' (fmul (fquot y1 (Finite False 1000)) (Finite False 1000)) ''P''
           (fmul b (Finite False 1000)) md = Inr rho"
    and "\<not> is_zero rho"
  shows "run (take 11 (off_design_body cp pw a b c d)) p =
    (p\<lparr>T_in_off := Some a, p_in_off := Some b, p_out_off := Some c, mf_off := Some d,
       h_in_off := Some (fquot y1 (Finite False 1000)),
       s_in_off := Some (fquot y2 (Finite False 1000)),
       s_out_s_off := Some (fquot y2 (Finite False 1000)),
       h_out_s_off := Some (fquot y3 (Finite False 1000)),
       T_out_s_off := Some (fsub y4 (lit 273.15)),
       rho_in_off := Some rho, V_in_off := Some (fquot d rho)\<rparr>, None)"
  using assms
  by (simp add: off_design_body_def run.simps assign_def bnd_def attr_def PropsSI_def fdiv_def)

lemma run_append:
  "run (xs @ ys) p = (case run xs p of (q, None) \<Rightarrow> run ys q | (q, Some e) \<Rightarrow> (q, Some e))"
  by (induction xs arbitrary: p) (auto simp: run.simps split: prod.splits option.splits)

lemma run_split:
  assumes "run (take k cs) p = (q, None)"
  shows "run cs p = run (drop k cs) q"
  using run_append [of "take k cs" "drop k cs" p] assms by simp

lemma correction_rhs:
  assumes "V_in q = Some v" and "V_in_off q = Some w" and "\<not> is_zero w"
  shows "eta_iP_off_rhs pw q =
     bnd (correction pw (fquot v w)) (\<lambda>f. bnd (attr ''eta_iP'' (eta_iP q)) (\<lambda>eta. Inr (fmul f eta)))"
  using assms by (simp add: eta_iP_off_rhs_def correction_def bnd_def attr_def fdiv_def split: sum.splits)

lemma off_design_drop:
  "drop 11 (off_design_body cp pw a b c d) =
     assign (\<lambda>v p. p\<lparr>eta_iP_off := Some v\<rparr>) (eta_iP_off_rhs pw)
       # drop 12 (off_design_body cp pw a b c d)"
  by (simp add: off_design_body_def)

lemma off_design_tail_frame:
  "V_in_off (fst (run (drop 12 (off_design_body cp pw a b c d)) q)) = V_in_off q
   \<and> eta_iP_off (fst (run (drop 12 (off_design_body cp pw a b c d)) q)) = eta_iP_off q"
proof -
  let ?g = "\<lambda>p. (V_in_off p, eta_iP_off p)"
  have "?g (fst (run (drop 12 (off_design_body cp pw a b c d)) q)) = ?g q"
    by (rule run_frame) (auto simp: off_design_body_def intro!: assign_frame)
  then show ?thesis by simp
qed

lemma off_design_correction:
  assumes run: "off_design cp pw a b c d p = (p', res)"
    and "eta_iP p = Some eta" and "V_in p = Some v" and "medium p = Some md"
    and "cp ''Hmass'' ''T'' (fadd a (lit 273.15)) ''P'' (fmul b (Finite False 1000)) md = Inr y1"
    and "cp ''Smass'' ''T'' (fadd a (lit 273.15)) ''P'' (fmul b (Finite False 1000)) md = Inr y2"
    and "cp ''Hmass'' ''Smass'' (fmul (fquot y2 (Finite False 1000)) (Finite False 1000)) ''P''
           (fmul c (Finite False 1000)) md = Inr y3"
    and "cp ''T'' ''Smass'' (fmul (fquot y2 (Finite False 1000)) (Finite False 1000)) ''P''
           (fmul c (Finite False 1000)) md = Inr y4"
    and "cp ''Dmass'' ''Hmass'' (fmul (fquot y1 (Finite False 1000)) (Finite False 1000)) ''P''
           (fmul b (Finite False 1000)) md = Inr rho"
    and "\<not> is_zero rho" and "\<not> is_zero (fquot d rho)"
    and "correction pw (fquot v (fquot d rho)) = Inr f"
  shows "V_in_off p' = Some (fquot d rho) \<and> eta_iP_off p' = Some (fmul f eta)"
proof -
  define q where "q = p\<lparr>T_in_off := Some a, p_in_off := Some b, p_out_off := Some c, mf_off := Some d,
       h_in_off := Some (fquot y1 (Finite False 1000)),
       s_in_off := Some (fquot y2 (Finite False 1000)),
       s_out_s_off := Some (fquot y2 (Finite False 1000)),
       h_out_s_off := Some (fquot y3 (Finite False 1000)),
       T_out_s_off := Some (fsub y4 (lit 273.15)),
       rho_in_off := Some rho, V_in_off := Some (fquot d rho)\<rparr>"
  have inlet: "run (take 11 (off_design_body cp pw a b c d)) p = (q, None)"
    unfolding q_def using assms(4-10) by (rule off_design_inlet)
  have q: "V_in q = Some v" "V_in_off q = Some (fquot d rho)" "eta_iP q = Some eta"
    using assms(2,3) by (simp_all add: q_def)
  have rhs: "eta_iP_off_rhs pw q = Inr (fmul f eta)"
    using correction_rhs [OF q(1,2) assms(11)] assms(12) q(3) by (simp add: bnd_def attr_def)
  define q' where "q' = q\<lparr>eta_iP_off := Some (fmul f eta)\<rparr>"
  have "off_design cp pw a b c d p = run (drop 11 (off_design_body cp pw a b c d)) q"
    unfolding off_design_def using inlet by (rule run_split)
  also have "\<dots> = run (drop 12 (off_design_body cp pw a b c d)) q'"
    using rhs by (simp add: off_design_drop run.simps assign_def q'_def)
  finally have "run (drop 12 (off_design_body cp pw a b c d)) q' = (p', res)"
    using run by simp
  then have "p' = fst (run (drop 12 (off_design_body cp pw a b c d)) q')"
    by simp
  then show ?thesis
    using off_design_tail_frame [of cp pw a b c d q'] q(2) by (simp add: q'_def)
qed

lemma off_design_missing_eta:
  assumes "eta_iP p = None" and "V_in p = Some v" and "medium p = Some md"
    and "cp ''Hmass'' ''T'' (fadd a (lit 273.15)) ''P'' (fmul b (Finite False 1000)) md = Inr y1"
    and "cp ''Smass'' ''T'' (fadd a (lit 273.15)) ''P'' (fmul b (Finite False 1000)) md = Inr y2"
    and "cp ''Hmass'' ''Smass'' (fmul (fquot y2 (Finite False 1000)) (Finite False 1000)) ''P''
           (fmul c (Finite False 1000)) md = Inr y3"
    and "cp ''T'' ''Smass'' (fmul (fquot y2 (Finite False 1000)) (Finite False 1000)) ''P''
           (fmul c (Finite False 1000)) md = Inr y4"
    and "cp ''Dmass'' ''Hmass'' (fmul (fquot y1 (Finite False 1000)) (Finite False 1000)) ''P''
           (fmul b (Finite False 1000)) md = Inr rho"
    and "\<not> is_zero rho" and "\<not> is_zero (fquot d rho)"
    and "correction pw (fquot v (fquot d rho)) = Inr f"
  shows "off_design cp pw a b c d p =
    (p\<lparr>T_in_off := Some a, p_in_off := Some b, p_out_off := Some c, mf_off := Some d,
       h_in_off := Some (fquot y1 (Finite False 1000)),
       s_in_off := Some (fquot y2 (Finite False 1000)),
       s_out_s_off := Some (fquot y2 (Finite False 1000)),
       h_out_s_off := Some (fquot y3 (Finite False 1000)),
       T_out_s_off := Some (fsub y4 (lit 273.15)),
       rho_in_off := Some rho, V_in_off := Some (fquot d rho)\<rparr>,
     Some (AttributeError ''eta_iP''))"
proof -
  define q where "q = p\<lparr>T_in_off := Some a, p_in_off := Some b, p_out_off := Some c, mf_off := Some d,
       h_in_off := Some (fquot y1 (Finite False 1000)),
       s_in_off := Some (fquot y2 (Finite False 1000)),
       s_out_s_off := Some (fquot y2 (Finite False 1000)),
       h_out_s_off := Some (fquot y3 (Finite False 1000)),
       T_out_s_off := Some (fsub y4 (lit 273.15)),
       rho_in_off := Some rho, V_in_off := Some (fquot d rho)\<rparr>"
  have inlet: "run (take 11 (off_design_body cp pw a b c d)) p = (q, None)"
    unfolding q_def using assms(3-9) by (rule off_design_inlet)
  have q: "V_in q = Some v" "V_in_off q = Some (fquot d rho)" "eta_iP q = None"
    using assms(1,2) by (simp_all add: q_def)
  have rhs: "eta_iP_off_rhs pw q = Inl (AttributeError ''eta_iP'')"
    using correction_rhs [OF q(1,2) assms(10)] assms(11) q(3) by (simp add: bnd_def attr_def)
  have "off_design cp pw a b c d p = run (drop 11 (off_design_body cp pw a b c d)) q"
    unfolding off_design_def using inlet by (rule run_split)
  also have "\<dots> = (q, Some (AttributeError ''eta_iP''))"
    using rhs by (simp add: off_design_drop run.simps assign_def)
  finally show ?thesis by (simp add: q_def)
qed

lemma off_design_eta_index:
  assumes "k < 16"
    and "(off_design_body cp pw a b c d ! k) q = (q, Some (AttributeError ''eta_iP''))"
  shows "k = 11"
proof (rule ccontr)
  assume "k \<noteq> 11"
  with assms(1) consider "k = 0" | "k = 1" | "k = 2" | "k = 3" | "k = 4" | "k = 5" | "k = 6"
    | "k = 7" | "k = 8" | "k = 9" | "k = 10" | "k = 12" | "k = 13" | "k = 14" | "k = 15"
    by atomize_elim arith
  then show False using assms(2)
    by cases (simp_all add: off_design_body_def assign_fail bnd_Inl attr_Inl PropsSI_Inl fdiv_Inl)
qed

lemma correction_Inl: "correction pw r = Inl e \<Longrightarrow> e = OverflowError"
  by (auto simp: correction_def bnd_Inl dest: fpow_Inl)

lemma off_design_eta_error:
  assumes run: "off_design cp pw a b c d p = (p', Some (AttributeError ''eta_iP''))"
    and "V_in p = Some v" and "medium p = Some md"
  shows "\<exists>y1 y2 y3 y4 rho f.
                cp ''Hmass'' ''T'' (fadd a (lit 273.15)) ''P'' (fmul b (Finite False 1000)) md = Inr y1
              \<and> cp ''Smass'' ''T'' (fadd a (lit 273.15)) ''P'' (fmul b (Finite False 1000)) md = Inr y2
              \<and> cp ''Hmass'' ''Smass'' (fmul (fquot y2 (Finite False 1000)) (Finite False 1000)) ''P''
                   (fmul c (Finite False 1000)) md = Inr y3
              \<and> cp ''T'' ''Smass'' (fmul (fquot y2 (Finite False 1000)) (Finite False 1000)) ''P''
                   (fmul c (Finite False 1000)) md = Inr y4
              \<and> cp ''Dmass'' ''Hmass'' (fmul (fquot y1 (Finite False 1000)) (Finite False 1000)) ''P''
                   (fmul b (Finite False 1000)) md = Inr rho
              \<and> \<not> is_zero rho \<and> \<not> is_zero (fquot d rho)
              \<and> correction pw (fquot v (fquot d rho)) = Inr f"
proof -
  have "\<exists>k<length (off_design_body cp pw a b c d).
      run (take k (off_design_body cp pw a b c d)) p = (p', None)
      \<and> (off_design_body cp pw a b c d ! k) p' = (p', Some (AttributeError ''eta_iP''))"
    using run unfolding off_design_def by (rule run_fail_prefix) (rule off_design_body_fail)
  then obtain k where k: "k < 16" "run (take k (off_design_body cp pw a b c d)) p = (p', None)"
     "(off_design_body cp pw a b c d ! k) p' = (p', Some (AttributeError ''eta_iP''))"
    by (auto simp: off_design_body_length)
  have k11: "k = 11" using k(1,3) by (rule off_design_eta_index)
  have fail: "eta_iP_off_rhs pw p' = Inl (AttributeError ''eta_iP'')"
    using k(3) unfolding k11 by (simp add: off_design_body_def assign_fail)
  have pre: "run (take 11 (off_design_body cp pw a b c d)) p = (p', None)"
    using k(2) unfolding k11 .
  from pre assms(2,3) obtain y1 y2 y3 y4 rho where
    l: "cp ''Hmass'' ''T'' (fadd a (lit 273.15)) ''P'' (fmul b (Finite False 1000)) md = Inr y1"
       "cp ''Smass'' ''T'' (fadd a (lit 273.15)) ''P'' (fmul b (Finite False 1000)) md = Inr y2"
       "cp ''Hmass'' ''Smass'' (fmul (fquot y2 (Finite False 1000)) (Finite False 1000)) ''P''
                   (fmul c (Finite False 1000)) md = Inr y3"
       "cp ''T'' ''Smass'' (fmul (fquot y2 (Finite False 1000)) (Finite False 1000)) ''P''
                   (fmul c (Finite False 1000)) md = Inr y4"
       "cp ''Dmass'' ''Hmass'' (fmul (fquot y1 (Finite False 1000)) (Finite False 1000)) ''P''
                   (fmul b (Finite False 1000)) md = Inr rho"
       "\<not> is_zero rho" and
    s: "V_in_off p' = Some (fquot d rho)" "V_in p' = Some v"
    by (auto simp: off_design_body_def exec_ok fdiv_Inr PropsSI_def split: sum.splits)
  have nz: "\<not> is_zero (fquot d rho)"
    using fail s
    by (auto simp: eta_iP_off_rhs_def bnd_Inl attr_Inl attr_Inr fdiv_Inl fdiv_Inr dest: fpow_Inl)
  from fail have "\<exists>f. correction pw (fquot v (fquot d rho)) = Inr f"
    unfolding correction_rhs [OF s(2,1) nz]
    by (cases "correction pw (fquot v (fquot d rho))") (auto simp: bnd_def dest: correction_Inl)
  with l nz show ?thesis by blast
qed

lemma off_design_outcomes:
  assumes "off_design cp pw a b c d p = (p', r)"
    and "eta_iP p = None" and "V_in p = Some v" and "medium p = Some md"
  shows "(r = Some (AttributeError ''eta_iP'')
          \<and> T_in_off p' = Some a \<and> p_in_off p' = Some b \<and> p_out_off p' = Some c
          \<and> mf_off p' = Some d
          \<and> (\<exists>h s hs ts rho w. h_in_off p' = Some h \<and> s_in_off p' = Some s
                \<and> s_out_s_off p' = Some s \<and> h_out_s_off p' = Some hs
                \<and> T_out_s_off p' = Some ts \<and> rho_in_off p' = Some rho
                \<and> V_in_off p' = Some w \<and> \<not> is_zero w)
          \<and> eta_iP_off p' = eta_iP_off p)
       \<or> (\<exists>x. r = Some (BackendError x)) \<or> r = Some ZeroDivisionError
       \<or> r = Some OverflowError"
  using assms unfolding off_design_def off_design_body_def
  by (elim run_Cons_cases;
      clarsimp simp: assign_ok assign_fail run_Nil_fail eta_iP_off_rhs_def
        bnd_Inl bnd_Inr attr_Inl attr_Inr PropsSI_Inl fdiv_Inl fdiv_Inr)
     (auto dest: fpow_Inl)

lemma off_design_no_eta:
  assumes "off_design cp pw a b c d p = (p', r)" and "eta_iP p = None"
  shows "eta_iP_off p' = eta_iP_off p"
  using assms unfolding off_design_def off_design_body_def
  by (elim run_Cons_cases;
      clarsimp simp: assign_ok assign_fail run_Nil_fail eta_iP_off_rhs_def bnd_Inr attr_Inr)

section \<open>Rounding\<close>

text \<open>
  The binary exponent is what its name says, rounding to the nearest integer is monotone
  and fixes the integers, and a rounding is certified by its exponent and its integer
  significand.
\<close>

lemma pow2_pos: "0 < (2::rat) powi k"
  by simp

lemma pow2_mono: "k \<le> l \<Longrightarrow> (2::rat) powi k \<le> 2 powi l"
  by (rule power_int_increasing) simp_all

lemma pow2_less_cancel: "(2::rat) powi k < 2 powi l \<Longrightarrow> k < l"
proof (rule ccontr)
  assume lt: "(2::rat) powi k < 2 powi l" and "\<not> k < l"
  then have "l \<le> k" by simp
  then have "(2::rat) powi l \<le> 2 powi k" by (rule pow2_mono)
  with lt show False by simp
qed

lemma of_int_bitlen_bounds:
  assumes "0 < p"
  shows "(2::rat) powi (bitlen p - 1) \<le> of_int p" and "of_int p < (2::rat) powi (bitlen p)"
proof -
  have b1: "1 \<le> bitlen p" using assms by (simp add: bitlen_alt_def)
  from bitlen_bounds [OF assms]
  have lo: "2 ^ nat (bitlen p - 1) \<le> p" and hi: "p < 2 ^ nat (bitlen p)" by simp_all
  have "(of_int (2 ^ nat (bitlen p - 1)) :: rat) \<le> of_int p"
    using lo by (simp only: of_int_le_iff)
  then show "(2::rat) powi (bitlen p - 1) \<le> of_int p"
    using b1 by (simp add: power_int_def)
  have "(of_int p :: rat) < of_int (2 ^ nat (bitlen p))"
    using hi by (simp only: of_int_less_iff)
  then show "of_int p < (2::rat) powi (bitlen p)"
    using b1 by (simp add: power_int_def)
qed

lemma ilog2_bounds:
  assumes "0 < m"
  shows "2 powi (ilog2 m) \<le> m" and "m < 2 powi (ilog2 m + 1)"
proof -
  obtain p q where pq: "quotient_of m = (p, q)" by (cases "quotient_of m")
  have q: "0 < q" using pq by (rule quotient_of_denom_pos)
  have m: "m = of_int p / of_int q" using pq by (rule quotient_of_div)
  have p: "0 < p" using assms q m by (simp add: zero_less_divide_iff)
  define d where "d = bitlen p - bitlen q"
  note bp = of_int_bitlen_bounds [OF p] and bq = of_int_bitlen_bounds [OF q]
  have qpos: "(0::rat) < of_int q" using q by simp
  have "m < 2 powi (bitlen p) / 2 powi (bitlen q - 1)"
    unfolding m using bp(2) bq(1) qpos p
    by (intro frac_less) simp_all
  also have "\<dots> = 2 powi (bitlen p - (bitlen q - 1))"
    by (rule power_int_diff [symmetric]) simp
  also have "bitlen p - (bitlen q - 1) = d + 1"
    by (simp add: d_def)
  finally have up: "m < 2 powi (d + 1)" .
  have "2 powi (bitlen p - 1) / 2 powi (bitlen q) < m"
    unfolding m using bp(1) bq(2) qpos p
    by (intro frac_less2) simp_all
  moreover have "(2::rat) powi (bitlen p - 1) / 2 powi (bitlen q) = 2 powi (bitlen p - 1 - bitlen q)"
    by (rule power_int_diff [symmetric]) simp
  moreover have "bitlen p - 1 - bitlen q = d - 1"
    by (simp add: d_def)
  ultimately have lo: "2 powi (d - 1) \<le> m" by simp
  have il: "ilog2 m = (if 2 powi d \<le> m then d else d - 1)"
    by (simp add: ilog2_def pq d_def Let_def)
  show "2 powi (ilog2 m) \<le> m"
    using lo by (simp add: il)
  show "m < 2 powi (ilog2 m + 1)"
    using up by (simp add: il)
qed

lemma ilog2_unique:
  assumes "0 < m" and "2 powi l \<le> m" and "m < 2 powi (l + 1)"
  shows "ilog2 m = l"
proof -
  have "(2::rat) powi (ilog2 m) < 2 powi (l + 1)"
    using ilog2_bounds(1) [OF assms(1)] assms(3) by simp
  then have a: "ilog2 m < l + 1" by (rule pow2_less_cancel)
  have "(2::rat) powi l < 2 powi (ilog2 m + 1)"
    using ilog2_bounds(2) [OF assms(1)] assms(2) by simp
  then have "l < ilog2 m + 1" by (rule pow2_less_cancel)
  with a show ?thesis by simp
qed

lemma ilog2_mono:
  assumes "0 < x" and "x \<le> y"
  shows "ilog2 x \<le> ilog2 y"
proof -
  have y: "0 < y" using assms by simp
  have "(2::rat) powi (ilog2 x) < 2 powi (ilog2 y + 1)"
    using ilog2_bounds(1) [OF assms(1)] ilog2_bounds(2) [OF y] assms(2) by simp
  then have "ilog2 x < ilog2 y + 1" by (rule pow2_less_cancel)
  then show ?thesis by simp
qed

lemma rhe_of_int: "round_half_even (of_int n) = n"
  by (simp add: round_half_even_def)

lemma rhe_ge:
  assumes "of_int k \<le> q"
  shows "k \<le> round_half_even q"
proof -
  have "k \<le> \<lfloor>q\<rfloor>" using assms by (simp add: le_floor_iff)
  then show ?thesis by (simp add: round_half_even_def Let_def)
qed

lemma rhe_le:
  assumes "q \<le> of_int k"
  shows "round_half_even q \<le> k"
proof (cases "q = of_int k")
  case True
  then show ?thesis by (simp add: rhe_of_int)
next
  case False
  with assms have "q < of_int k" by simp
  then have "\<lfloor>q\<rfloor> < k" by (simp add: floor_less_iff)
  then have "\<lfloor>q\<rfloor> + 1 \<le> k" by simp
  then show ?thesis by (simp add: round_half_even_def Let_def)
qed

lemma rhe_near:
  assumes "\<bar>q - of_int n\<bar> < 1 / 2"
  shows "round_half_even q = n"
proof (cases "of_int n \<le> q")
  case True
  with assms have "q < of_int n + 1" by linarith
  with True have f: "\<lfloor>q\<rfloor> = n" by (simp add: floor_unique)
  have "q - of_int n < 1 / 2" using assms True by linarith
  then show ?thesis by (simp add: round_half_even_def Let_def f)
next
  case False
  then have lt: "q < of_int n" by simp
  have gt: "of_int n - 1 / 2 < q" using assms by linarith
  have "rat_of_int (n - 1) \<le> q" and "q < rat_of_int (n - 1) + 1"
    using lt gt by simp_all
  then have f: "\<lfloor>q\<rfloor> = n - 1"
    by (rule floor_unique)
  have "1 / 2 < q - of_int (n - 1)" using gt by simp
  then show ?thesis by (simp add: round_half_even_def Let_def f)
qed

lemma rhe_tie:
  assumes "\<bar>q - of_int n\<bar> = 1 / 2" and "even n"
  shows "round_half_even q = n"
proof (cases "of_int n \<le> q")
  case True
  with assms have q: "q = of_int n + 1 / 2" by linarith
  have "of_int n \<le> q" and "q < of_int n + 1" using q by simp_all
  then have f: "\<lfloor>q\<rfloor> = n" by (rule floor_unique)
  have r: "q - of_int \<lfloor>q\<rfloor> = 1 / 2" unfolding f using q by simp
  show ?thesis
    unfolding round_half_even_def Let_def r using assms(2) f by simp
next
  case False
  with assms have q: "q = of_int n - 1 / 2" by linarith
  have "rat_of_int (n - 1) \<le> q" and "q < rat_of_int (n - 1) + 1" using q by simp_all
  then have f: "\<lfloor>q\<rfloor> = n - 1" by (rule floor_unique)
  have r: "q - of_int \<lfloor>q\<rfloor> = 1 / 2" unfolding f using q by simp
  show ?thesis
    unfolding round_half_even_def Let_def r using assms(2) f by simp
qed

lemma rhe_cert:
  assumes "\<bar>q - of_int n\<bar> < 1 / 2 \<or> (\<bar>q - of_int n\<bar> = 1 / 2 \<and> even n)"
  shows "round_half_even q = n"
  using assms rhe_near rhe_tie by blast

lemma round_mag_cert:
  assumes "0 < m" and "2 powi l \<le> m" and "m < 2 powi (l + 1)"
    and "e = max l (- 1022) - 52"
    and "\<bar>m / 2 powi e - of_int n\<bar> < 1 / 2 \<or> (\<bar>m / 2 powi e - of_int n\<bar> = 1 / 2 \<and> even n)"
  shows "round_mag m = of_int n * 2 powi e"
proof -
  have "ilog2 m = l" using assms(1-3) by (rule ilog2_unique)
  then have "ulp_exp m = e" using assms(4) by (simp add: ulp_exp_def)
  then show ?thesis using rhe_cert [OF assms(5)] by (simp add: round_mag_def)
qed

lemma round_to_cert:
  assumes "0 < m" and "2 powi l \<le> m" and "m < 2 powi (l + 1)"
    and "e = max l (- 1022) - 52"
    and "\<bar>m / 2 powi e - of_int n\<bar> < 1 / 2 \<or> (\<bar>m / 2 powi e - of_int n\<bar> = 1 / 2 \<and> even n)"
    and "of_int n * 2 powi e = r" and "r < 2 ^ 1024"
  shows "round_to s m = Finite s r"
  using round_mag_cert [OF assms(1-5)] assms(1,6,7) by (simp add: round_to_def)

text \<open>
  Rounding never crosses a double: a magnitude at or above a double rounds to at least that
  double, one at or below it to at most that double.
\<close>

lemma round_mag_nonneg:
  assumes "0 < m"
  shows "0 \<le> round_mag m"
proof -
  have "(of_int 0 :: rat) \<le> m / 2 powi ulp_exp m" using assms by simp
  then have "0 \<le> round_half_even (m / 2 powi ulp_exp m)" by (rule rhe_ge)
  then show ?thesis by (simp add: round_mag_def)
qed

lemma round_to_False_nonneg:
  assumes "0 \<le> m"
  shows "nonneg (round_to False m)"
proof (cases "m = 0")
  case True
  then show ?thesis by (simp add: round_to_def)
next
  case False
  with assms have "0 < m" by simp
  then have "0 \<le> round_mag m" by (rule round_mag_nonneg)
  then show ?thesis by (simp add: round_to_def)
qed

lemma double_round_mag:
  assumes "is_double (Finite s a)" and "a \<noteq> 0"
  shows "round_mag a = a" and "0 < a" and "a < 2 ^ 1024"
proof -
  from assms have a: "0 < a" by simp
  from assms have r: "round_to s a = Finite s a" by simp
  show "round_mag a = a" using r assms(2) by (simp add: round_to_def split: if_splits)
  then show "a < 2 ^ 1024" using r assms(2) by (simp add: round_to_def split: if_splits)
  show "0 < a" by (rule a)
qed

lemma grid_integral:
  assumes "round_mag a = a"
  shows "a / 2 powi ulp_exp a = of_int (round_half_even (a / 2 powi ulp_exp a))"
proof -
  have "a = of_int (round_half_even (a / 2 powi ulp_exp a)) * 2 powi ulp_exp a"
    using assms by (simp add: round_mag_def)
  then have "a / 2 powi ulp_exp a
      = of_int (round_half_even (a / 2 powi ulp_exp a)) * 2 powi ulp_exp a / 2 powi ulp_exp a"
    by simp
  then show ?thesis by simp
qed

lemma round_mag_ge:
  assumes a: "0 < a" and ay: "a \<le> y" and grid: "round_mag a = a"
  shows "a \<le> round_mag y"
proof -
  have y: "0 < y" using a ay by simp
  have mono: "ilog2 a \<le> ilog2 y" using a ay by (rule ilog2_mono)
  show ?thesis
  proof (cases "ulp_exp a = ulp_exp y")
    case True
    define e where "e = ulp_exp y"
    define n where "n = round_half_even (a / 2 powi e)"
    have an: "a / 2 powi e = of_int n"
      using grid_integral [OF grid] True by (simp add: e_def n_def)
    have "a / 2 powi e \<le> y / 2 powi e"
      using ay by (simp add: divide_right_mono)
    then have "of_int n \<le> y / 2 powi e" using an by simp
    then have "n \<le> round_half_even (y / 2 powi e)" by (rule rhe_ge)
    then have "(of_int n :: rat) \<le> of_int (round_half_even (y / 2 powi e))"
      by (simp only: of_int_le_iff)
    then have "(of_int n :: rat) * 2 powi e \<le> of_int (round_half_even (y / 2 powi e)) * 2 powi e"
      by (intro mult_right_mono) simp_all
    also have "of_int n * 2 powi e = a" using an by (simp add: field_simps)
    also have "of_int (round_half_even (y / 2 powi e)) * 2 powi e = round_mag y"
      by (simp add: round_mag_def e_def)
    finally show ?thesis .
  next
    case False
    with mono have lt: "ilog2 a < ilog2 y" and big: "- 1022 < ilog2 y"
      by (auto simp: ulp_exp_def)
    define l where "l = ilog2 y"
    have e: "ulp_exp y = l - 52" using big by (simp add: ulp_exp_def l_def)
    have "a < 2 powi (ilog2 a + 1)" using a by (rule ilog2_bounds)
    also have "\<dots> \<le> 2 powi l" using lt by (intro pow2_mono) (simp add: l_def)
    finally have al: "a < 2 powi l" .
    have ly: "2 powi l \<le> y" unfolding l_def using y by (rule ilog2_bounds)
    define c :: int where "c = 2 ^ 52"
    have c_rat: "(of_int c :: rat) = 2 powi 52" by (simp add: c_def)
    have "(2::rat) powi 52 * 2 powi (l - 52) = 2 powi (52 + (l - 52))"
      by (rule power_int_add [symmetric]) simp
    then have split: "(2::rat) powi l = of_int c * 2 powi (l - 52)"
      unfolding c_rat by simp
    have "of_int c * 2 powi (l - 52) \<le> y" using ly split by simp
    then have "of_int c \<le> y / 2 powi (l - 52)" by (simp add: pos_le_divide_eq)
    then have "c \<le> round_half_even (y / 2 powi (l - 52))" by (rule rhe_ge)
    then have "(of_int c :: rat) \<le> of_int (round_half_even (y / 2 powi (l - 52)))"
      by (simp only: of_int_le_iff)
    then have "(of_int c :: rat) * 2 powi (l - 52)
        \<le> of_int (round_half_even (y / 2 powi (l - 52))) * 2 powi (l - 52)"
      by (intro mult_right_mono) simp_all
    also have "\<dots> = round_mag y" by (simp add: round_mag_def e)
    finally have "2 powi l \<le> round_mag y" unfolding split [symmetric] .
    with al show ?thesis by simp
  qed
qed

lemma round_mag_le:
  assumes y: "0 < y" and ya: "y \<le> a" and grid: "round_mag a = a"
  shows "round_mag y \<le> a"
proof -
  have a: "0 < a" using y ya by simp
  have mono: "ilog2 y \<le> ilog2 a" using y ya by (rule ilog2_mono)
  show ?thesis
  proof (cases "ulp_exp a = ulp_exp y")
    case True
    define e where "e = ulp_exp y"
    define n where "n = round_half_even (a / 2 powi e)"
    have an: "a / 2 powi e = of_int n"
      using grid_integral [OF grid] True by (simp add: e_def n_def)
    have "y / 2 powi e \<le> a / 2 powi e"
      using ya by (simp add: divide_right_mono)
    then have "y / 2 powi e \<le> of_int n" using an by simp
    then have "round_half_even (y / 2 powi e) \<le> n" by (rule rhe_le)
    then have "(of_int (round_half_even (y / 2 powi e)) :: rat) \<le> of_int n"
      by (simp only: of_int_le_iff)
    then have "(of_int (round_half_even (y / 2 powi e)) :: rat) * 2 powi e \<le> of_int n * 2 powi e"
      by (intro mult_right_mono) simp_all
    also have "of_int n * 2 powi e = a" using an by (simp add: field_simps)
    also have "of_int (round_half_even (y / 2 powi e)) * 2 powi e = round_mag y"
      by (simp add: round_mag_def e_def)
    finally show ?thesis .
  next
    case False
    define k where "k = max (ilog2 y) (- 1022)"
    have e: "ulp_exp y = k - 52" by (simp add: ulp_exp_def k_def)
    from False mono have ka: "k + 1 \<le> ilog2 a"
      by (auto simp: ulp_exp_def k_def)
    have "y < 2 powi (ilog2 y + 1)" using y by (rule ilog2_bounds)
    also have "\<dots> \<le> 2 powi (k + 1)" by (intro pow2_mono) (simp add: k_def)
    finally have yk: "y < 2 powi (k + 1)" .
    define c :: int where "c = 2 ^ 53"
    have c_rat: "(of_int c :: rat) = 2 powi 53" by (simp add: c_def)
    have "(2::rat) powi 53 * 2 powi (k - 52) = 2 powi (53 + (k - 52))"
      by (rule power_int_add [symmetric]) simp
    moreover have "53 + (k - 52) = k + 1" by simp
    ultimately have split: "(2::rat) powi (k + 1) = of_int c * 2 powi (k - 52)"
      unfolding c_rat by simp
    have "y \<le> of_int c * 2 powi (k - 52)" using yk split by simp
    then have "y / 2 powi (k - 52) \<le> of_int c" by (simp add: pos_divide_le_eq)
    then have "round_half_even (y / 2 powi (k - 52)) \<le> c" by (rule rhe_le)
    then have "(of_int (round_half_even (y / 2 powi (k - 52))) :: rat) \<le> of_int c"
      by (simp only: of_int_le_iff)
    then have "(of_int (round_half_even (y / 2 powi (k - 52))) :: rat) * 2 powi (k - 52)
        \<le> of_int c * 2 powi (k - 52)"
      by (intro mult_right_mono) simp_all
    then have "round_mag y \<le> of_int c * 2 powi (k - 52)" by (simp add: round_mag_def e)
    then have "round_mag y \<le> 2 powi (k + 1)" unfolding split [symmetric] .
    also have "\<dots> \<le> 2 powi (ilog2 a)" using ka by (rule pow2_mono)
    also have "\<dots> \<le> a" using a by (rule ilog2_bounds)
    finally show ?thesis .
  qed
qed

text \<open>A magnitude from \<open>2^1024\<close> on rounds to infinity.\<close>

lemma round_mag_2_1024: "round_mag (2 ^ 1024) = 2 ^ 1024"
  by (rule trans [OF round_mag_cert [where l = 1024 and e = 972 and n = 4503599627370496]])
     (simp_all add: power_int_def power_one_over)

lemma round_to_overflow:
  assumes "2 ^ 1024 \<le> m"
  shows "round_to s m = Infty s"
proof -
  have "(2::rat) ^ 1024 \<le> round_mag m"
    using _ assms round_mag_2_1024 by (rule round_mag_ge) simp
  moreover have "m \<noteq> 0" using assms by auto
  ultimately show ?thesis by (simp add: round_to_def)
qed

section \<open>Float arithmetic\<close>

lemma signed_zero [simp]: "signed s 0 = 0"
  by (simp add: signed_def)

lemma nonneg_above:
  assumes "nonneg x" and "signed s a \<le> 0"
  shows "fle (Finite s a) x"
  using assms by (cases x) (auto simp: signed_def split: if_splits)

lemma nonneg_fle: "nonneg x \<Longrightarrow> fle (Finite False 0) x"
  by (rule nonneg_above) simp_all

lemma fsub_nonneg:
  assumes "fle (Finite s a) y"
  shows "nonneg (fsub y (Finite s a))"
proof (cases y)
  case (Finite t b)
  define z where "z = signed t b + signed (\<not> s) a"
  have z: "0 \<le> z" using assms Finite by (simp add: z_def signed_def split: if_splits)
  have "fsub y (Finite s a) = (if z = 0 then Finite (t \<and> \<not> s) 0 else round_to (z < 0) \<bar>z\<bar>)"
    by (simp add: fsub_def Finite z_def Let_def)
  also have "\<dots> = (if z = 0 then Finite (t \<and> \<not> s) 0 else round_to False z)"
    using z by simp
  finally show ?thesis using z by (simp add: round_to_False_nonneg)
next
  case (Infty t)
  then show ?thesis using assms by (simp add: fsub_def)
next
  case NaN
  then show ?thesis using assms by simp
qed

lemma fquot_nonneg:
  assumes "nonneg d" and "0 < e"
  shows "nonneg (fquot d (Finite False e))"
proof (cases d)
  case (Finite u r)
  show ?thesis
  proof (cases u)
    case True
    with Finite assms show ?thesis by (simp add: round_to_def)
  next
    case False
    with Finite assms have "0 \<le> r / e" by simp
    then show ?thesis using Finite False by (simp add: round_to_False_nonneg)
  qed
next
  case (Infty u)
  then show ?thesis using assms by simp
next
  case NaN
  then show ?thesis using assms by simp
qed

lemma fmul_nonneg:
  assumes "0 < mm" and "nonneg x"
  shows "nonneg (fmul (Finite False mm) x)"
proof (cases x)
  case (Finite u r)
  show ?thesis
  proof (cases u)
    case True
    with Finite assms show ?thesis by (simp add: round_to_def)
  next
    case False
    with Finite assms have "0 \<le> mm * r" by simp
    then show ?thesis using Finite False by (simp add: round_to_False_nonneg)
  qed
next
  case (Infty u)
  then show ?thesis using assms by simp
next
  case NaN
  then show ?thesis using assms by simp
qed

lemma fadd_ge:
  assumes dbl: "is_double (Finite s a)" and q: "nonneg q"
  shows "fle (Finite s a) (fadd (Finite s a) q)"
proof (cases q)
  case (Infty u)
  then show ?thesis using q by simp
next
  case NaN
  then show ?thesis using q by simp
next
  case (Finite u r)
  define v where "v = signed u r"
  have v: "0 \<le> v" using q Finite by (auto simp: v_def signed_def)
  define z where "z = signed s a + v"
  have sum: "fadd (Finite s a) q = (if z = 0 then Finite (s \<and> u) 0 else round_to (z < 0) \<bar>z\<bar>)"
    by (simp add: Finite z_def v_def Let_def)
  have a0: "0 \<le> a" using dbl by simp
  show ?thesis
  proof (cases "z = 0")
    case True
    then have "signed s a \<le> 0" using v by (simp add: z_def)
    then show ?thesis using True by (simp add: sum)
  next
    case nz: False
    show ?thesis
    proof (cases "0 < z")
      case pos: True
      have res: "fadd (Finite s a) q = round_to False z" using pos by (simp add: sum)
      show ?thesis
      proof (cases "signed s a \<le> 0")
        case True
        have "nonneg (round_to False z)" using pos by (simp add: round_to_False_nonneg)
        then show ?thesis unfolding res using True by (rule nonneg_above)
      next
        case False
        then have s: "\<not> s" and an0: "a \<noteq> 0" using a0 by (auto simp: signed_def split: if_splits)
        have az: "a \<le> z" using v s by (simp add: z_def signed_def)
        note d = double_round_mag [OF dbl an0]
        have "a \<le> round_mag z" using d(2) az d(1) by (rule round_mag_ge)
        then show ?thesis unfolding res using s pos by (simp add: round_to_def signed_def)
      qed
    next
      case False
      with nz have neg: "z < 0" by simp
      then have s: "s" and an0: "a \<noteq> 0" using v a0 by (auto simp: z_def signed_def split: if_splits)
      note d = double_round_mag [OF dbl an0]
      have zpos: "0 < \<bar>z\<bar>" using neg by simp
      have za: "\<bar>z\<bar> \<le> a" using neg v s by (simp add: z_def signed_def)
      have le: "round_mag \<bar>z\<bar> \<le> a" using zpos za d(1) by (rule round_mag_le)
      then have "round_mag \<bar>z\<bar> < 2 ^ 1024" using d(3) by simp
      then have "fadd (Finite s a) q = Finite True (round_mag \<bar>z\<bar>)"
        using neg by (simp add: sum round_to_def)
      then show ?thesis using le s by (simp add: signed_def)
    qed
  qed
qed

lemma round_to_0: "round_to s 0 = Finite s 0"
  by (simp add: round_to_def)

lemma round_to_sign: "round_to s m = Finite u r \<Longrightarrow> u = s"
  by (simp add: round_to_def split: if_splits)

lemma fmul_one: "is_double x \<Longrightarrow> fmul (Finite False 1) x = x"
  by (cases x) simp_all

lemma ideal_rise:
  assumes dbl: "is_double (Finite t n)"
    and sub: "fsub (Finite t n) (Finite s m) = Finite u d"
    and exact: "signed u d = signed t n - signed s m"
  shows "feq (fadd (Finite s m) (fquot (Finite u d) (Finite False 1))) (Finite t n)"
proof -
  define z where "z = signed t n + signed (\<not> s) m"
  have zd: "z = signed u d" using exact by (simp add: z_def signed_def)
  have unf: "fsub (Finite t n) (Finite s m)
      = (if z = 0 then Finite (t \<and> \<not> s) 0 else round_to (z < 0) \<bar>z\<bar>)"
    by (simp add: fsub_def z_def Let_def)
  have sub': "(if z = 0 then Finite (t \<and> \<not> s) 0 else round_to (z < 0) \<bar>z\<bar>) = Finite u d"
    unfolding unf [symmetric] by (rule sub)
  have rd: "round_to u d = Finite u d"
  proof (cases "z = 0")
    case True
    with sub' show ?thesis by (simp add: round_to_0)
  next
    case False
    with sub' have r: "round_to (z < 0) \<bar>z\<bar> = Finite u d" by simp
    then have u: "u = (z < 0)" by (rule round_to_sign)
    have "d = \<bar>z\<bar>" using zd u by (auto simp: signed_def split: if_splits)
    with r u show ?thesis by simp
  qed
  have q: "fquot (Finite u d) (Finite False 1) = Finite u d"
    using rd by simp
  have n0: "0 \<le> n" and rn: "round_to t n = Finite t n" using dbl by simp_all
  have sum: "signed s m + signed u d = signed t n" using exact by simp
  show ?thesis
  proof (cases "signed t n = 0")
    case True
    then show ?thesis unfolding q using sum by (simp add: Let_def)
  next
    case False
    then have "(signed t n < 0) = t" and "\<bar>signed t n\<bar> = n"
      using n0 by (auto simp: signed_def split: if_splits)
    then show ?thesis unfolding q using sum False rn by (simp add: Let_def)
  qed
qed

lemma power_success:
  assumes "power_pump cp eta p = (p', None)"
    and "h_in p = Some hi" and "h_out_s p = Some hs" and "mf p = Some m"
  shows "\<not> is_zero eta"
    and "h_out p' = Some (fadd hi (fquot (fsub hs hi) eta))"
    and "N_iP p' = Some (fmul m (fsub (fadd hi (fquot (fsub hs hi) eta)) hi))"
  using assms by (auto simp: power_pump_def power_body_def exec_ok fdiv_Inr)

section \<open>The values of the concrete runs\<close>

text \<open>Each rounding the concrete runs need, certified by its exponent and significand.\<close>

lemma round_1: "round_to s (1) = Finite s (1)"
  by (rule round_to_cert [where l = 0 and e = "-52" and n = 4503599627370496])
     (simp_all add: power_int_def power_one_over)

lemma round_1_2: "round_to s (1 / 2) = Finite s (1 / 2)"
  by (rule round_to_cert [where l = "-1" and e = "-53" and n = 4503599627370496])
     (simp_all add: power_int_def power_one_over)

lemma round_V_in: "round_to s (1 / 1000) = Finite s (1152921504606847 / 1152921504606846976)"
  by (rule round_to_cert [where l = "-10" and e = "-62" and n = 4611686018427388])
     (simp_all add: power_int_def power_one_over)

lemma round_0168: "round_to s (21 / 125) = Finite s (6052837899185947 / 36028797018963968)"
  by (rule round_to_cert [where l = "-3" and e = "-55" and n = 6052837899185947])
     (simp_all add: power_int_def power_one_over)

lemma round_00336: "round_to s (21 / 625) = Finite s (4842270319348757 / 144115188075855872)"
  by (rule round_to_cert [where l = "-5" and e = "-57" and n = 4842270319348757])
     (simp_all add: power_int_def power_one_over)

lemma round_06317: "round_to s (6317 / 10000) = Finite s (5689847769219885 / 9007199254740992)"
  by (rule round_to_cert [where l = "-1" and e = "-53" and n = 5689847769219885])
     (simp_all add: power_int_def power_one_over)

lemma round_05699: "round_to s (5699 / 10000) = Finite s (5133202855276891 / 9007199254740992)"
  by (rule round_to_cert [where l = "-1" and e = "-53" and n = 5133202855276891])
     (simp_all add: power_int_def power_one_over)

lemma dbl_0168: "round_to s (6052837899185947 / 36028797018963968) = Finite s (6052837899185947 / 36028797018963968)"
  by (rule round_to_cert [where l = "-3" and e = "-55" and n = 6052837899185947])
     (simp_all add: power_int_def power_one_over)

lemma dbl_00336: "round_to s (4842270319348757 / 144115188075855872) = Finite s (4842270319348757 / 144115188075855872)"
  by (rule round_to_cert [where l = "-5" and e = "-57" and n = 4842270319348757])
     (simp_all add: power_int_def power_one_over)

lemma dbl_06317: "round_to s (5689847769219885 / 9007199254740992) = Finite s (5689847769219885 / 9007199254740992)"
  by (rule round_to_cert [where l = "-1" and e = "-53" and n = 5689847769219885])
     (simp_all add: power_int_def power_one_over)

lemma round_cubic_3: "round_to s (29053621916092545 / 144115188075855872) = Finite s (226981421219473 / 1125899906842624)"
  by (rule round_to_cert [where l = "-3" and e = "-55" and n = 7263405479023136])
     (simp_all add: power_int_def power_one_over)

lemma round_cubic_5: "round_to s (3873996399464101 / 9007199254740992) = Finite s (3873996399464101 / 9007199254740992)"
  by (rule round_to_cert [where l = "-2" and e = "-54" and n = 7747992798928202])
     (simp_all add: power_int_def power_one_over)

lemma round_1018: "round_to s (509 / 500) = Finite s (4584664420663165 / 4503599627370496)"
  by (rule round_to_cert [where l = 0 and e = "-52" and n = 4584664420663165])
     (simp_all add: power_int_def power_one_over)

lemma round_eta_1018: "round_to s (4584664420663165 / 9007199254740992) = Finite s (4584664420663165 / 9007199254740992)"
  by (rule round_to_cert [where l = "-1" and e = "-53" and n = 4584664420663165])
     (simp_all add: power_int_def power_one_over)

lemma round_012: "round_to s (3 / 25) = Finite s (1080863910568919 / 9007199254740992)"
  by (rule round_to_cert [where l = "-4" and e = "-56" and n = 8646911284551352])
     (simp_all add: power_int_def power_one_over)

lemma round_178: "round_to s (89 / 50) = Finite s (8016407336719483 / 4503599627370496)"
  by (rule round_to_cert [where l = 0 and e = "-52" and n = 8016407336719483])
     (simp_all add: power_int_def power_one_over)

lemma round_178_012: "round_to s (14951950762870047 / 9007199254740992) = Finite s (467248461339689 / 281474976710656)"
  by (rule round_to_cert [where l = 0 and e = "-52" and n = 7475975381435024])
     (simp_all add: power_int_def power_one_over)

lemma dbl_178_012: "round_to s (467248461339689 / 281474976710656) = Finite s (467248461339689 / 281474976710656)"
  by (rule round_to_cert [where l = 0 and e = "-52" and n = 7475975381435024])
     (simp_all add: power_int_def power_one_over)

lemma round_ideal_toluene: "round_to s (16032814673438967 / 9007199254740992) = Finite s (2004101834179871 / 1125899906842624)"
  by (rule round_to_cert [where l = 0 and e = "-52" and n = 8016407336719484])
     (simp_all add: power_int_def power_one_over)

lemma round_h_in: "round_to s (2623 / 25) = Finite s (7383088639120507 / 70368744177664)"
  by (rule round_to_cert [where l = 6 and e = "-46" and n = 7383088639120507])
     (simp_all add: power_int_def power_one_over)

lemma round_h_out_s: "round_to s (2633 / 25) = Finite s (1852809034197893 / 17592186044416)"
  by (rule round_to_cert [where l = 6 and e = "-46" and n = 7411236136791572])
     (simp_all add: power_int_def power_one_over)

lemma dbl_h_in: "round_to s (7383088639120507 / 70368744177664) = Finite s (7383088639120507 / 70368744177664)"
  by (rule round_to_cert [where l = 6 and e = "-46" and n = 7383088639120507])
     (simp_all add: power_int_def power_one_over)

lemma dbl_h_out_s: "round_to s (1852809034197893 / 17592186044416) = Finite s (1852809034197893 / 17592186044416)"
  by (rule round_to_cert [where l = 6 and e = "-46" and n = 7411236136791572])
     (simp_all add: power_int_def power_one_over)

lemma round_dh: "round_to s (28147497671065 / 70368744177664) = Finite s (28147497671065 / 70368744177664)"
  by (rule round_to_cert [where l = "-2" and e = "-54" and n = 7205759403792640])
     (simp_all add: power_int_def power_one_over)

lemma round_1_500: "round_to s (1 / 500) = Finite s (1152921504606847 / 576460752303423488)"
  by (rule round_to_cert [where l = "-9" and e = "-61" and n = 4611686018427388])
     (simp_all add: power_int_def power_one_over)

lemma round_1_8: "round_to s (1 / 8) = Finite s (1 / 8)"
  by (rule round_to_cert [where l = "-3" and e = "-55" and n = 4503599627370496])
     (simp_all add: power_int_def power_one_over)

lemma round_1_4: "round_to s (1 / 4) = Finite s (1 / 4)"
  by (rule round_to_cert [where l = "-2" and e = "-54" and n = 4503599627370496])
     (simp_all add: power_int_def power_one_over)

lemma round_half_3: "round_to s (6052837899185947 / 288230376151711744) = Finite s (6052837899185947 / 288230376151711744)"
  by (rule round_to_cert [where l = "-6" and e = "-58" and n = 6052837899185947])
     (simp_all add: power_int_def power_one_over)

lemma round_half_2: "round_to s (4842270319348757 / 576460752303423488) = Finite s (4842270319348757 / 576460752303423488)"
  by (rule round_to_cert [where l = "-7" and e = "-59" and n = 4842270319348757])
     (simp_all add: power_int_def power_one_over)

lemma round_half_32: "round_to s (16947946117720651 / 576460752303423488) = Finite s (4236986529430163 / 144115188075855872)"
  by (rule round_to_cert [where l = "-6" and e = "-58" and n = 8473973058860326])
     (simp_all add: power_int_def power_one_over)

lemma round_half_1: "round_to s (5689847769219885 / 18014398509481984) = Finite s (5689847769219885 / 18014398509481984)"
  by (rule round_to_cert [where l = "-2" and e = "-54" and n = 5689847769219885])
     (simp_all add: power_int_def power_one_over)

lemma round_half_321: "round_to s (41281795624328917 / 144115188075855872) = Finite s (5160224453041115 / 18014398509481984)"
  by (rule round_to_cert [where l = "-2" and e = "-54" and n = 5160224453041115])
     (simp_all add: power_int_def power_one_over)

lemma round_half_f: "round_to s (15426630163594897 / 18014398509481984) = Finite s (964164385224681 / 1125899906842624)"
  by (rule round_to_cert [where l = "-1" and e = "-53" and n = 7713315081797448])
     (simp_all add: power_int_def power_one_over)

lemma round_half_eta: "round_to s (964164385224681 / 2251799813685248) = Finite s (964164385224681 / 2251799813685248)"
  by (rule round_to_cert [where l = "-2" and e = "-54" and n = 7713315081797448])
     (simp_all add: power_int_def power_one_over)

lemma round_tiny: "round_to s (1 / 3273390607896141870013189696827599152216642046043064789483291368096133796404674554883270092325904157150886684127560071009217256545885393053328527589376) = Finite s (1 / 3273390607896141870013189696827599152216642046043064789483291368096133796404674554883270092325904157150886684127560071009217256545885393053328527589376)"
  by (rule round_to_cert [where l = "-500" and e = "-552" and n = 4503599627370496])
     (simp_all add: power_int_def power_one_over)

lemma round_huge: "round_to s (3273390607896141938154320099540745141215749035543489885137168932532201947794380728068203352956959468981297688542894342330703657133339574322197430272) = Finite s (3273390607896141938154320099540745141215749035543489885137168932532201947794380728068203352956959468981297688542894342330703657133339574322197430272)"
  by (rule round_to_cert [where l = 490 and e = 438 and n = 4611686018427388])
     (simp_all add: power_int_def power_one_over)

lemmas half_vals =
  round_1_500 round_1_8 round_1_4 round_half_3 round_half_2 round_half_32 round_half_1
  round_half_321 round_half_f round_half_eta

lemmas float_vals =
  round_1 round_1_2 round_V_in round_0168 round_00336 round_06317 round_05699
  dbl_0168 dbl_00336 dbl_06317 round_cubic_3 round_cubic_5 round_1018 round_eta_1018
  round_012 round_178 round_178_012 dbl_178_012 round_ideal_toluene
  round_h_in round_h_out_s dbl_h_in dbl_h_out_s round_dh

lemma correction_one: "correction pw (Finite False 1) = Inr (Finite False 1)"
  by (simp add: correction_def fpow_def bnd_def lit_def fsub_def signed_def float_vals)

lemmas exec_defs = run.simps assign_def bnd_def attr_def PropsSI_def fdiv_def

lemma stub_pump_init:
  assumes "fluid = ''Water'' \<or> fluid = ''Toluene'' \<or> fluid = ''R245fa''"
  shows "init stub (Finite False 25) (Finite False 100) (Finite False 500) (Finite False 1)
           fluid new_object = (stub_pump fluid, None)"
  using assms by (auto simp: stub_pump_def init_def init_body_def exec_defs stub_def new_object_def)

lemma Pump_stub:
  assumes "fluid = ''Water'' \<or> fluid = ''Toluene'' \<or> fluid = ''R245fa''"
  shows "Pump stub (Finite False 25) (Finite False 100) (Finite False 500) (Finite False 1) fluid
           = Inr (stub_pump fluid)"
  by (simp add: Pump_def stub_pump_init [OF assms])

lemma stub_pump_Water:
  "medium (stub_pump ''Water'') = Some ''Water''"
  "mf (stub_pump ''Water'') = Some (Finite False 1)"
  "p_out (stub_pump ''Water'') = Some (Finite False 500)"
  "h_in (stub_pump ''Water'') = Some (Finite False (7383088639120507 / 70368744177664))"
  "h_out_s (stub_pump ''Water'') = Some (Finite False (1852809034197893 / 17592186044416))"
  "V_in (stub_pump ''Water'') = Some (Finite False (1152921504606847 / 1152921504606846976))"
  "eta_iP (stub_pump ''Water'') = None"
  "eta_iP_off (stub_pump ''Water'') = None"
  by (simp_all add: stub_pump_def init_def init_body_def exec_defs stub_def new_object_def float_vals)

lemma stub_pump_Toluene:
  "medium (stub_pump ''Toluene'') = Some ''Toluene''"
  "mf (stub_pump ''Toluene'') = Some (Finite False 1)"
  "p_out (stub_pump ''Toluene'') = Some (Finite False 500)"
  "h_in (stub_pump ''Toluene'') = Some (Finite False (1080863910568919 / 9007199254740992))"
  "h_out_s (stub_pump ''Toluene'') = Some (Finite False (8016407336719483 / 4503599627370496))"
  by (simp_all add: stub_pump_def init_def init_body_def exec_defs stub_def new_object_def float_vals)


lemma powered_pump_run:
  "power_pump stub (Finite False (1 / 2)) (stub_pump ''Water'') = (powered_pump, None)"
  by (simp add: powered_pump_def power_pump_def power_body_def exec_defs stub_def stub_pump_Water)

lemma powered_pump_fields:
  "medium powered_pump = Some ''Water''"
  "eta_iP powered_pump = Some (Finite False (1 / 2))"
  "V_in powered_pump = Some (Finite False (1152921504606847 / 1152921504606846976))"
  "eta_iP_off powered_pump = None"
  by (simp_all add: powered_pump_def power_pump_def power_body_def exec_defs stub_def stub_pump_Water)

lemma off_pump_run:
  "off_design stub rounded_pow (Finite False 25) (Finite False 100) (Finite False 500) (Finite False 1)
     powered_pump = (off_pump, None)"
  by (simp add: off_pump_def off_design_def off_design_body_def eta_iP_off_rhs_def exec_defs stub_def
      powered_pump_fields fpow_def lit_def fsub_def signed_def float_vals)

lemma off_pump_fields:
  "V_in_off off_pump = Some (Finite False (1152921504606847 / 1152921504606846976))"
  "eta_iP_off off_pump = Some (Finite False (1 / 2))"
  by (simp_all add: off_pump_def off_design_def off_design_body_def eta_iP_off_rhs_def exec_defs stub_def
      powered_pump_fields fpow_def lit_def fsub_def signed_def float_vals)

lemma ideal_pump_Water_run:
  "power_pump stub (Finite False 1) (stub_pump ''Water'') = (ideal_pump ''Water'', None)"
  by (simp add: ideal_pump_def power_pump_def power_body_def exec_defs stub_def stub_pump_Water)

lemma ideal_pump_Toluene_run:
  "power_pump stub (Finite False 1) (stub_pump ''Toluene'') = (ideal_pump ''Toluene'', None)"
  by (simp add: ideal_pump_def power_pump_def power_body_def exec_defs stub_def stub_pump_Toluene)

lemma ideal_pump_Toluene_fields:
  "h_out_s (ideal_pump ''Toluene'') = Some (Finite False (8016407336719483 / 4503599627370496))"
  "h_out (ideal_pump ''Toluene'') = Some (Finite False (2004101834179871 / 1125899906842624))"
  by (simp_all add: ideal_pump_def power_pump_def power_body_def exec_defs stub_def stub_pump_Toluene
      fsub_def signed_def float_vals)



lemma early_pump_run:
  "off_design stub rounded_pow (Finite False 25) (Finite False 100) (Finite False 500) (Finite False 1)
     (stub_pump ''Water'') = (early_pump, Some (AttributeError ''eta_iP''))"
  by (simp add: early_pump_def off_design_def off_design_body_def eta_iP_off_rhs_def exec_defs stub_def
      stub_pump_Water fpow_def lit_def fsub_def signed_def float_vals)

lemma zero_flow_run:
  "snd (off_design stub rounded_pow (Finite False 25) (Finite False 100) (Finite False 500) (Finite False 0)
     (stub_pump ''Water'')) = Some ZeroDivisionError"
  by (simp add: off_design_def off_design_body_def eta_iP_off_rhs_def exec_defs stub_def
      stub_pump_Water round_to_0 float_vals)

lemma half_pump_run:
  "off_design stub rounded_pow (Finite False 25) (Finite False 100) (Finite False 500)
     (Finite False 2) powered_pump = (half_pump, None)"
  by (simp add: half_pump_def off_design_def off_design_body_def eta_iP_off_rhs_def exec_defs stub_def
      powered_pump_fields fpow_def rounded_pow_def power_divide lit_def fsub_def signed_def float_vals
      half_vals)

lemma half_pump_fields:
  "V_in_off half_pump = Some (Finite False (1152921504606847 / 576460752303423488))"
  "eta_iP_off half_pump = Some (Finite False (964164385224681 / 2251799813685248))"
  by (simp_all add: half_pump_def off_design_def off_design_body_def eta_iP_off_rhs_def exec_defs stub_def
      powered_pump_fields fpow_def rounded_pow_def power_divide lit_def fsub_def signed_def float_vals
      half_vals)

lemma correction_half:
  "correction rounded_pow (Finite False (1 / 2)) = Inr (Finite False (964164385224681 / 1125899906842624))"
  by (simp add: correction_def fpow_def rounded_pow_def power_divide bnd_def lit_def fsub_def signed_def float_vals
      half_vals)

lemma overflow_pump_run:
  "off_design stub rounded_pow (Finite False 25) (Finite False 100) (Finite False 500)
     (Finite False (125 / 2 ^ 497)) powered_pump = (overflow_pump, Some OverflowError)"
  by (simp add: overflow_pump_def off_design_def off_design_body_def eta_iP_off_rhs_def exec_defs stub_def
      powered_pump_fields fpow_def rounded_pow_def round_to_overflow float_vals round_tiny round_huge)

lemma overflow_pump_fields:
  "V_in_off overflow_pump = Some (Finite False (1 / 2 ^ 500))"
  "eta_iP_off overflow_pump = None"
  by (simp_all add: overflow_pump_def off_design_def off_design_body_def eta_iP_off_rhs_def exec_defs stub_def
      powered_pump_fields fpow_def rounded_pow_def round_to_overflow float_vals round_tiny round_huge)

lemma flat_pump_init:
  "init flat (Finite False 25) (Finite False 100) (Finite False 100) (Infty False) ''Water''
     new_object = (flat_pump, None)"
  by (simp add: flat_pump_def init_def init_body_def exec_defs flat_def new_object_def)

lemma flat_pump_fields:
  "h_in flat_pump = Some (Finite False 1)"
  "h_out_s flat_pump = Some (Finite False 1)"
  "mf flat_pump = Some (Infty False)"
  by (simp_all add: flat_pump_def init_def init_body_def exec_defs flat_def new_object_def float_vals)

lemma nan_pump_run:
  "power_pump flat (Finite False (1 / 2)) flat_pump = (nan_pump, None)"
  by (simp add: nan_pump_def power_pump_def power_body_def exec_defs flat_def flat_pump_fields
      flat_pump_def init_def init_body_def new_object_def float_vals)

lemma nan_pump_fields:
  "N_iP nan_pump = Some NaN"
  by (simp add: nan_pump_def power_pump_def power_body_def exec_defs flat_def
      flat_pump_def init_def init_body_def new_object_def fsub_def signed_def round_to_0 float_vals)

section \<open>The claims\<close>

text \<open>
  C1, as amended. On a pump whose \<^verbatim>\<open>eta_iP\<close> was set by \<^verbatim>\<open>power\<close>, take a call of
  \<^verbatim>\<open>off_design\<close> in which the five lookups of the off-design inlet state, lines 96 to
  103, succeed, the density \<^verbatim>\<open>rho_in_off\<close> and the off-design flow
  \<^verbatim>\<open>V_in_off = mf_off / rho_in_off\<close> are not zero, and the cube and the square of the
  flow ratio \<open>r = V_in / V_in_off\<close>, design flow over off-design flow, do not overflow.
  Then the call sets \<^verbatim>\<open>eta_iP_off\<close> to \<open>f(r) * eta_iP\<close>, where \<open>f\<close> is the cubic with
  the coefficients \<open>-0.168\<close>, \<open>-0.0336\<close>, \<open>0.6317\<close> and \<open>0.5699\<close>, and the value
  stays whether the rest of the call succeeds or fails.
\<close>

theorem C1_off_design_efficiency:
  assumes "off_design cp pw a b c d p = (p', res)"
    and "eta_iP p = Some eta" and "V_in p = Some v" and "medium p = Some md"
    and "cp ''Hmass'' ''T'' (fadd a (lit 273.15)) ''P'' (fmul b (Finite False 1000)) md = Inr y1"
    and "cp ''Smass'' ''T'' (fadd a (lit 273.15)) ''P'' (fmul b (Finite False 1000)) md = Inr y2"
    and "cp ''Hmass'' ''Smass'' (fmul (fquot y2 (Finite False 1000)) (Finite False 1000)) ''P''
         (fmul c (Finite False 1000)) md = Inr y3"
    and "cp ''T'' ''Smass'' (fmul (fquot y2 (Finite False 1000)) (Finite False 1000)) ''P''
         (fmul c (Finite False 1000)) md = Inr y4"
    and "cp ''Dmass'' ''Hmass'' (fmul (fquot y1 (Finite False 1000)) (Finite False 1000)) ''P''
         (fmul b (Finite False 1000)) md = Inr rho"
    and "\<not> is_zero rho" and "\<not> is_zero (fquot d rho)"
    and "correction pw (fquot v (fquot d rho)) = Inr f"
  shows "V_in_off p' = Some (fquot d rho) \<and> eta_iP_off p' = Some (fmul f eta)"
  using assms by (rule off_design_correction)

text \<open>
  The water pump, powered at 0.5 and taken off design at twice its mass flow: the flow
  ratio is \<open>0.5\<close>, the factor \<open>f(0.5)\<close> is \<open>0.85635\<close> and the corrected efficiency is
  \<open>0.428175\<close>, each the nearest double.
\<close>

theorem C1_witness:
  "off_design stub rounded_pow (Finite False 25) (Finite False 100) (Finite False 500)
     (Finite False 2) powered_pump = (half_pump, None)
   \<and> eta_iP powered_pump = Some (Finite False (1 / 2))
   \<and> V_in powered_pump = Some (Finite False (1152921504606847 / 1152921504606846976))
   \<and> medium powered_pump = Some ''Water''
   \<and> stub ''Hmass'' ''T'' (fadd (Finite False 25) (lit 273.15)) ''P'' (fmul (Finite False 100) (Finite False 1000)) ''Water'' = Inr (Finite False 104920)
   \<and> stub ''Smass'' ''T'' (fadd (Finite False 25) (lit 273.15)) ''P'' (fmul (Finite False 100) (Finite False 1000)) ''Water'' = Inr (Finite False 367)
   \<and> stub ''Hmass'' ''Smass'' (fmul (fquot (Finite False 367) (Finite False 1000)) (Finite False 1000)) ''P''
         (fmul (Finite False 500) (Finite False 1000)) ''Water'' = Inr (Finite False 105320)
   \<and> stub ''T'' ''Smass'' (fmul (fquot (Finite False 367) (Finite False 1000)) (Finite False 1000)) ''P''
         (fmul (Finite False 500) (Finite False 1000)) ''Water'' = Inr (Finite False 298)
   \<and> stub ''Dmass'' ''Hmass'' (fmul (fquot (Finite False 104920) (Finite False 1000)) (Finite False 1000)) ''P''
         (fmul (Finite False 100) (Finite False 1000)) ''Water'' = Inr (Finite False 1000)
   \<and> \<not> is_zero (Finite False 1000)
   \<and> fquot (Finite False 2) (Finite False 1000) = Finite False (1152921504606847 / 576460752303423488)
   \<and> fquot (Finite False (1152921504606847 / 1152921504606846976)) (Finite False (1152921504606847 / 576460752303423488)) = Finite False (1 / 2)
   \<and> correction rounded_pow (Finite False (1 / 2)) = Inr (Finite False (964164385224681 / 1125899906842624))
   \<and> fmul (Finite False (964164385224681 / 1125899906842624)) (Finite False (1 / 2)) = Finite False (964164385224681 / 2251799813685248)
   \<and> V_in_off half_pump = Some (Finite False (1152921504606847 / 576460752303423488))
   \<and> eta_iP_off half_pump = Some (Finite False (964164385224681 / 2251799813685248))"
proof -
  have l1: "stub ''Hmass'' ''T'' (fadd (Finite False 25) (lit 273.15)) ''P'' (fmul (Finite False 100) (Finite False 1000)) ''Water'' = Inr (Finite False 104920)"
    and l2: "stub ''Smass'' ''T'' (fadd (Finite False 25) (lit 273.15)) ''P'' (fmul (Finite False 100) (Finite False 1000)) ''Water'' = Inr (Finite False 367)"
    and l3: "stub ''Hmass'' ''Smass'' (fmul (fquot (Finite False 367) (Finite False 1000)) (Finite False 1000)) ''P''
         (fmul (Finite False 500) (Finite False 1000)) ''Water'' = Inr (Finite False 105320)"
    and l4: "stub ''T'' ''Smass'' (fmul (fquot (Finite False 367) (Finite False 1000)) (Finite False 1000)) ''P''
         (fmul (Finite False 500) (Finite False 1000)) ''Water'' = Inr (Finite False 298)"
    and l5: "stub ''Dmass'' ''Hmass'' (fmul (fquot (Finite False 104920) (Finite False 1000)) (Finite False 1000)) ''P''
         (fmul (Finite False 100) (Finite False 1000)) ''Water'' = Inr (Finite False 1000)"
    by (simp_all add: stub_def)
  have nz: "\<not> is_zero (Finite False 1000)" by simp
  have w: "fquot (Finite False 2) (Finite False 1000) = Finite False (1152921504606847 / 576460752303423488)"
    by (simp add: round_1_500)
  have r: "fquot (Finite False (1152921504606847 / 1152921504606846976)) (Finite False (1152921504606847 / 576460752303423488)) = Finite False (1 / 2)"
    by (simp add: round_1_2)
  have e: "fmul (Finite False (964164385224681 / 1125899906842624)) (Finite False (1 / 2)) = Finite False (964164385224681 / 2251799813685248)"
    by (simp add: round_half_eta)
  have nzw: "\<not> is_zero (fquot (Finite False 2) (Finite False 1000))"
    unfolding w by simp
  have f: "correction rounded_pow (fquot (Finite False (1152921504606847 / 1152921504606846976))
      (fquot (Finite False 2) (Finite False 1000))) = Inr (Finite False (964164385224681 / 1125899906842624))"
    unfolding w r by (rule correction_half)
  note t = C1_off_design_efficiency [OF half_pump_run powered_pump_fields(2) powered_pump_fields(3)
      powered_pump_fields(1) l1 l2 l3 l4 l5 nz nzw f]
  have v: "V_in_off half_pump = Some (Finite False (1152921504606847 / 576460752303423488))"
    using t [THEN conjunct1] unfolding w .
  have x: "eta_iP_off half_pump = Some (Finite False (964164385224681 / 2251799813685248))"
    using t [THEN conjunct2] unfolding e .
  show ?thesis
    using half_pump_run powered_pump_fields(2) powered_pump_fields(3) powered_pump_fields(1)
      l1 l2 l3 l4 l5 nz w r correction_half e v x
    by blast
qed

text \<open>
  The claim as it stands: the same pump taken off design at the mass flow
  \<open>1000 * 2^-500\<close>. The five lookups succeed and \<^verbatim>\<open>V_in_off\<close> is \<open>2^-500\<close>, not zero,
  but the cube of the flow ratio overflows: line 106 raises \<^verbatim>\<open>OverflowError\<close> and
  \<^verbatim>\<open>eta_iP_off\<close> is never assigned.
\<close>

theorem C1_counterexample:
  "eta_iP powered_pump = Some (Finite False (1 / 2))
   \<and> stub ''Hmass'' ''T'' (fadd (Finite False 25) (lit 273.15)) ''P'' (fmul (Finite False 100) (Finite False 1000)) ''Water'' = Inr (Finite False 104920)
   \<and> stub ''Smass'' ''T'' (fadd (Finite False 25) (lit 273.15)) ''P'' (fmul (Finite False 100) (Finite False 1000)) ''Water'' = Inr (Finite False 367)
   \<and> stub ''Hmass'' ''Smass'' (fmul (fquot (Finite False 367) (Finite False 1000)) (Finite False 1000)) ''P''
         (fmul (Finite False 500) (Finite False 1000)) ''Water'' = Inr (Finite False 105320)
   \<and> stub ''T'' ''Smass'' (fmul (fquot (Finite False 367) (Finite False 1000)) (Finite False 1000)) ''P''
         (fmul (Finite False 500) (Finite False 1000)) ''Water'' = Inr (Finite False 298)
   \<and> stub ''Dmass'' ''Hmass'' (fmul (fquot (Finite False 104920) (Finite False 1000)) (Finite False 1000)) ''P''
         (fmul (Finite False 100) (Finite False 1000)) ''Water'' = Inr (Finite False 1000)
   \<and> off_design stub rounded_pow (Finite False 25) (Finite False 100) (Finite False 500)
        (Finite False (125 / 2 ^ 497)) powered_pump = (overflow_pump, Some OverflowError)
   \<and> V_in_off overflow_pump = Some (Finite False (1 / 2 ^ 500))
   \<and> \<not> is_zero (Finite False (1 / 2 ^ 500))
   \<and> eta_iP_off overflow_pump = None"
proof -
  have l: "stub ''Hmass'' ''T'' (fadd (Finite False 25) (lit 273.15)) ''P'' (fmul (Finite False 100) (Finite False 1000)) ''Water'' = Inr (Finite False 104920)"
    "stub ''Smass'' ''T'' (fadd (Finite False 25) (lit 273.15)) ''P'' (fmul (Finite False 100) (Finite False 1000)) ''Water'' = Inr (Finite False 367)"
    "stub ''Hmass'' ''Smass'' (fmul (fquot (Finite False 367) (Finite False 1000)) (Finite False 1000)) ''P''
         (fmul (Finite False 500) (Finite False 1000)) ''Water'' = Inr (Finite False 105320)"
    "stub ''T'' ''Smass'' (fmul (fquot (Finite False 367) (Finite False 1000)) (Finite False 1000)) ''P''
         (fmul (Finite False 500) (Finite False 1000)) ''Water'' = Inr (Finite False 298)"
    "stub ''Dmass'' ''Hmass'' (fmul (fquot (Finite False 104920) (Finite False 1000)) (Finite False 1000)) ''P''
         (fmul (Finite False 100) (Finite False 1000)) ''Water'' = Inr (Finite False 1000)"
    by (simp_all add: stub_def)
  have nz: "\<not> is_zero (Finite False (1 / 2 ^ 500))" by simp
  show ?thesis
    using powered_pump_fields(2) l overflow_pump_run overflow_pump_fields nz by blast
qed

text \<open>
  C2, as amended. The correction factor at the flow ratio \<open>1.0\<close> is \<open>1.0\<close>: the four
  coefficients sum to one, in exact arithmetic and also in double arithmetic. So when
  the off-design volumetric flow equals the design flow, both finite, a normal return of
  \<^verbatim>\<open>off_design\<close> leaves \<^verbatim>\<open>eta_iP_off\<close> equal to \<^verbatim>\<open>eta_iP\<close>.
\<close>

theorem C2_design_flow_ratio:
  assumes "off_design cp pw T_off p_off po_off m_off p = (p', None)"
    and "eta_iP p = Some eta" and "is_double eta"
    and "V_in p = Some (Finite s m)" and "V_in_off p' = Some (Finite s m)"
  shows "correction pw (Finite False 1) = Inr (Finite False 1) \<and> eta_iP_off p' = Some eta"
proof -
  from off_design_eta [OF assms(1,2,4)] assms(5)
  obtain r f where nz: "\<not> is_zero (Finite s m)"
    and r: "fdiv (Finite s m) (Finite s m) = Inr r"
    and f: "correction pw r = Inr f" and e: "eta_iP_off p' = Some (fmul f eta)"
    by auto
  from nz have "m \<noteq> 0" by simp
  then have "r = Finite False 1" using r by (auto simp: fdiv_def round_1)
  with f have "f = Finite False 1" by (simp add: correction_one)
  with e show ?thesis using assms(3) by (simp add: correction_one fmul_one)
qed

text \<open>The water pump at its own design point: the corrected efficiency is 0.5 again.\<close>

theorem C2_witness:
  "off_design stub rounded_pow (Finite False 25) (Finite False 100) (Finite False 500) (Finite False 1)
     powered_pump = (off_pump, None)
   \<and> eta_iP powered_pump = Some (Finite False (1 / 2)) \<and> is_double (Finite False (1 / 2))
   \<and> V_in powered_pump = Some (Finite False (1152921504606847 / 1152921504606846976))
   \<and> V_in_off off_pump = Some (Finite False (1152921504606847 / 1152921504606846976))
   \<and> correction rounded_pow (Finite False 1) = Inr (Finite False 1)
   \<and> eta_iP_off off_pump = Some (Finite False (1 / 2))"
proof -
  have d: "is_double (Finite False (1 / 2))" by (simp add: round_1_2)
  show ?thesis
    using C2_design_flow_ratio [OF off_pump_run powered_pump_fields(2) d powered_pump_fields(3)
        off_pump_fields(1)]
      off_pump_run powered_pump_fields off_pump_fields d
    by simp
qed

text \<open>
  The same run against the constant \<open>1.0180\<close>: the factor is not \<open>1.0180\<close> and the
  corrected efficiency is not \<open>0.5 * 1.0180\<close>.
\<close>

theorem C2_counterexample:
  "off_design stub rounded_pow (Finite False 25) (Finite False 100) (Finite False 500) (Finite False 1)
     powered_pump = (off_pump, None)
   \<and> eta_iP powered_pump = Some (Finite False (1 / 2))
   \<and> V_in_off off_pump = V_in powered_pump
   \<and> correction rounded_pow (Finite False 1) = Inr (Finite False 1)
   \<and> \<not> feq (Finite False 1) (lit 1.0180)
   \<and> eta_iP_off off_pump = Some (Finite False (1 / 2))
   \<and> \<not> feq (Finite False (1 / 2)) (fmul (Finite False (1 / 2)) (lit 1.0180))"
  by (simp add: off_pump_run powered_pump_fields off_pump_fields correction_one lit_def
      signed_def float_vals)

text \<open>
  C3. After every successful construction the stored isentropic-outlet entropy
  \<^verbatim>\<open>s_out_s\<close> is the inlet entropy \<^verbatim>\<open>s_in\<close>.
\<close>

theorem C3_isentropic_identity:
  assumes "Pump cp T P Po m md = Inr p"
  shows "\<exists>s. s_in p = Some s \<and> s_out_s p = Some s"
  using assms by (auto simp: Pump_Inr init_def init_body_def exec_ok)

text \<open>The construction of the water pump.\<close>

theorem C3_witness:
  "Pump stub (Finite False 25) (Finite False 100) (Finite False 500) (Finite False 1) ''Water''
     = Inr (stub_pump ''Water'')
   \<and> (\<exists>s. s_in (stub_pump ''Water'') = Some s \<and> s_out_s (stub_pump ''Water'') = Some s)"
proof -
  have h: "Pump stub (Finite False 25) (Finite False 100) (Finite False 500) (Finite False 1)
      ''Water'' = Inr (stub_pump ''Water'')"
    by (rule Pump_stub) simp
  show ?thesis using h C3_isentropic_identity [OF h] by simp
qed

text \<open>
  C4, as amended. With \<^verbatim>\<open>eta_iP = 1.0\<close> the division by the efficiency changes nothing
  and \<^verbatim>\<open>h_out\<close> is \<open>h_in + (h_out_s - h_in)\<close> in double arithmetic. It compares equal to
  \<^verbatim>\<open>h_out_s\<close> whenever the subtraction \<open>h_out_s - h_in\<close> of the two finite enthalpies is
  exact, that is, has no rounding error.
\<close>

theorem C4_ideal_efficiency:
  assumes "power_pump cp (Finite False 1) p = (p', None)"
    and "h_in p = Some (Finite s m)" and "h_out_s p = Some (Finite t n)"
    and "is_double (Finite t n)"
    and "fsub (Finite t n) (Finite s m) = Finite u d"
    and "signed u d = signed t n - signed s m"
  shows "\<exists>ho. h_out p' = Some ho \<and> feq ho (Finite t n)"
proof -
  obtain mm where mm: "mf p = Some mm"
    using assms(1) by (auto simp: power_pump_def power_body_def exec_ok)
  have "h_out p' = Some (fadd (Finite s m) (fquot (fsub (Finite t n) (Finite s m)) (Finite False 1)))"
    using assms(1,2,3) mm by (rule power_success)
  then show ?thesis using ideal_rise [OF assms(4,5,6)] assms(5) by simp
qed

text \<open>The water pump: 105.32 - 104.92 is exact, and \<^verbatim>\<open>h_out\<close> equals \<^verbatim>\<open>h_out_s\<close>.\<close>

theorem C4_witness:
  "power_pump stub (Finite False 1) (stub_pump ''Water'') = (ideal_pump ''Water'', None)
   \<and> h_in (stub_pump ''Water'') = Some (Finite False (7383088639120507 / 70368744177664))
   \<and> h_out_s (stub_pump ''Water'') = Some (Finite False (1852809034197893 / 17592186044416))
   \<and> is_double (Finite False (1852809034197893 / 17592186044416))
   \<and> fsub (Finite False (1852809034197893 / 17592186044416))
        (Finite False (7383088639120507 / 70368744177664))
      = Finite False (28147497671065 / 70368744177664)
   \<and> signed False (28147497671065 / 70368744177664)
      = signed False (1852809034197893 / 17592186044416)
        - signed False (7383088639120507 / 70368744177664)
   \<and> (\<exists>ho. h_out (ideal_pump ''Water'') = Some ho
        \<and> feq ho (Finite False (1852809034197893 / 17592186044416)))"
proof -
  have d: "is_double (Finite False (1852809034197893 / 17592186044416))"
    by (simp add: float_vals)
  have s: "fsub (Finite False (1852809034197893 / 17592186044416))
        (Finite False (7383088639120507 / 70368744177664))
      = Finite False (28147497671065 / 70368744177664)"
    by (simp add: fsub_def signed_def float_vals)
  have e: "signed False (28147497671065 / 70368744177664)
      = signed False (1852809034197893 / 17592186044416)
        - signed False (7383088639120507 / 70368744177664)"
    by (simp add: signed_def)
  show ?thesis
    using C4_ideal_efficiency [OF ideal_pump_Water_run stub_pump_Water(4) stub_pump_Water(5) d s e]
      ideal_pump_Water_run stub_pump_Water d s e
    by simp
qed

text \<open>
  The toluene pump: \<open>h_in = 0.12\<close> and \<open>h_out_s = 1.78\<close>, the subtraction rounds, and
  \<^verbatim>\<open>h_out\<close> is \<open>1.7800000000000002\<close>, one unit in the last place above \<^verbatim>\<open>h_out_s\<close>.
\<close>

theorem C4_counterexample:
  "power_pump stub (Finite False 1) (stub_pump ''Toluene'') = (ideal_pump ''Toluene'', None)
   \<and> h_out_s (ideal_pump ''Toluene'') = Some (Finite False (8016407336719483 / 4503599627370496))
   \<and> h_out (ideal_pump ''Toluene'') = Some (Finite False (2004101834179871 / 1125899906842624))
   \<and> \<not> feq (Finite False (2004101834179871 / 1125899906842624))
          (Finite False (8016407336719483 / 4503599627370496))"
  by (simp add: ideal_pump_Toluene_run ideal_pump_Toluene_fields signed_def)



text \<open>
  C6, as amended. For a pump with finite \<^verbatim>\<open>h_in\<close>, with \<open>h_out_s \<ge> h_in\<close> and a finite
  mass flow \<open>mf > 0\<close>, a successful call of \<^verbatim>\<open>power\<close> with an efficiency in \<open>(0, 1]\<close>
  yields \<open>N_iP \<ge> 0\<close>; the values are doubles, as every Python float is. The proof follows the four roundings: the difference of the
  enthalpies is not negative, dividing by the efficiency keeps it so, adding it to
  \<^verbatim>\<open>h_in\<close> does not go below \<^verbatim>\<open>h_in\<close>, and the product with the mass flow is not
  negative.
\<close>

theorem C6_power_nonnegative:
  assumes run: "power_pump cp eta p = (p', None)"
    and "h_in p = Some hi" and "h_out_s p = Some hs" and "mf p = Some m"
    and "is_double hi" and "is_finite hi" and "fle hi hs"
    and "is_double m" and "is_finite m" and "flt (Finite False 0) m"
    and "is_double eta" and "flt (Finite False 0) eta" and "fle eta (Finite False 1)"
  shows "\<exists>N. N_iP p' = Some N \<and> fle (Finite False 0) N"
proof -
  obtain s a where hi: "hi = Finite s a" using assms(6) by (cases hi) simp_all
  obtain mm where m: "m = Finite False mm" and mm: "0 < mm"
    using assms(8,9,10) by (cases m) (auto simp: signed_def split: if_splits)
  obtain e where eta: "eta = Finite False e" and e: "0 < e"
    using assms(11,12,13) by (cases eta) (auto simp: signed_def split: if_splits)
  define d where "d = fsub hs hi"
  define q where "q = fquot d eta"
  define ho where "ho = fadd hi q"
  have N: "N_iP p' = Some (fmul m (fsub ho hi))"
    using power_success(3) [OF run assms(2,3,4)] by (simp add: ho_def q_def d_def)
  have "nonneg d" unfolding d_def hi using assms(7) hi by (intro fsub_nonneg) simp
  then have "nonneg q" unfolding q_def eta using e by (rule fquot_nonneg)
  then have "fle hi ho" unfolding ho_def hi using assms(5) hi by (intro fadd_ge) simp_all
  then have "nonneg (fsub ho hi)" unfolding hi by (rule fsub_nonneg)
  then have "nonneg (fmul m (fsub ho hi))" unfolding m using mm by (intro fmul_nonneg)
  then have "fle (Finite False 0) (fmul m (fsub ho hi))" by (rule nonneg_fle)
  with N show ?thesis by simp
qed

text \<open>The water pump powered at 0.5.\<close>

theorem C6_witness:
  "power_pump stub (Finite False (1 / 2)) (stub_pump ''Water'') = (powered_pump, None)
   \<and> h_in (stub_pump ''Water'') = Some (Finite False (7383088639120507 / 70368744177664))
   \<and> h_out_s (stub_pump ''Water'') = Some (Finite False (1852809034197893 / 17592186044416))
   \<and> mf (stub_pump ''Water'') = Some (Finite False 1)
   \<and> is_double (Finite False (7383088639120507 / 70368744177664))
   \<and> fle (Finite False (7383088639120507 / 70368744177664))
          (Finite False (1852809034197893 / 17592186044416))
   \<and> is_double (Finite False 1) \<and> flt (Finite False 0) (Finite False 1)
   \<and> is_double (Finite False (1 / 2)) \<and> flt (Finite False 0) (Finite False (1 / 2))
   \<and> fle (Finite False (1 / 2)) (Finite False 1)
   \<and> (\<exists>N. N_iP powered_pump = Some N \<and> fle (Finite False 0) N)"
proof -
  have d1: "is_double (Finite False (7383088639120507 / 70368744177664))"
    and d2: "is_double (Finite False 1)" and d3: "is_double (Finite False (1 / 2))"
    by (simp_all add: float_vals)
  have f1: "is_finite (Finite False (7383088639120507 / 70368744177664))"
    and f2: "is_finite (Finite False 1)" by simp_all
  have c1: "fle (Finite False (7383088639120507 / 70368744177664))
          (Finite False (1852809034197893 / 17592186044416))"
    and c2: "flt (Finite False 0) (Finite False 1)"
    and c3: "flt (Finite False 0) (Finite False (1 / 2))"
    and c4: "fle (Finite False (1 / 2)) (Finite False 1)"
    by (simp_all add: signed_def)
  show ?thesis
    using C6_power_nonnegative [OF powered_pump_run stub_pump_Water(4) stub_pump_Water(5)
        stub_pump_Water(2) d1 f1 c1 d2 f2 c2 d3 c3 c4]
      powered_pump_run stub_pump_Water d1 d2 d3 c1 c2 c3 c4
    by simp
qed

text \<open>
  The claim as it stands, without the finiteness: over a backend whose lookups all
  return the same value the constructed pump has \<open>h_out_s = h_in\<close>, and with the mass flow
  \<open>+inf\<close>, which is greater than zero, \<^verbatim>\<open>power(0.5)\<close> succeeds and stores
  \<open>N_iP = inf * 0.0\<close>, a NaN, for which \<open>N_iP \<ge> 0\<close> is false.
\<close>

theorem C6_counterexample:
  "Pump flat (Finite False 25) (Finite False 100) (Finite False 100) (Infty False) ''Water''
     = Inr flat_pump
   \<and> h_in flat_pump = Some (Finite False 1) \<and> h_out_s flat_pump = Some (Finite False 1)
   \<and> fle (Finite False 1) (Finite False 1)
   \<and> mf flat_pump = Some (Infty False) \<and> flt (Finite False 0) (Infty False)
   \<and> flt (Finite False 0) (Finite False (1 / 2)) \<and> fle (Finite False (1 / 2)) (Finite False 1)
   \<and> power_pump flat (Finite False (1 / 2)) flat_pump = (nan_pump, None)
   \<and> N_iP nan_pump = Some NaN \<and> \<not> fle (Finite False 0) NaN"
  by (simp add: Pump_def flat_pump_init flat_pump_fields nan_pump_run nan_pump_fields signed_def)

text \<open>
  C7. A call of \<^verbatim>\<open>off_design\<close>, successful or not, leaves every design-point field as
  it was: \<^verbatim>\<open>T_in\<close>, \<^verbatim>\<open>p_in\<close>, \<^verbatim>\<open>p_out\<close>, \<^verbatim>\<open>mf\<close>, \<^verbatim>\<open>medium\<close>, \<^verbatim>\<open>h_in\<close>, \<^verbatim>\<open>s_in\<close>,
  \<^verbatim>\<open>s_out_s\<close>, \<^verbatim>\<open>h_out_s\<close>, \<^verbatim>\<open>T_out_s\<close>, \<^verbatim>\<open>rho_in\<close>, \<^verbatim>\<open>V_in\<close>, \<^verbatim>\<open>eta_iP\<close>, \<^verbatim>\<open>h_out\<close>,
  \<^verbatim>\<open>T_out\<close>, \<^verbatim>\<open>s_out\<close> and \<^verbatim>\<open>N_iP\<close>. It writes the off-design attributes only.
\<close>

theorem C7_off_design_frame:
  assumes "off_design cp pw T_off p_off po_off m_off p = (p', r)"
  shows "T_in p' = T_in p \<and> p_in p' = p_in p \<and> p_out p' = p_out p \<and> mf p' = mf p
       \<and> medium p' = medium p \<and> h_in p' = h_in p \<and> s_in p' = s_in p \<and> s_out_s p' = s_out_s p
       \<and> h_out_s p' = h_out_s p \<and> T_out_s p' = T_out_s p \<and> rho_in p' = rho_in p
       \<and> V_in p' = V_in p \<and> eta_iP p' = eta_iP p \<and> h_out p' = h_out p \<and> T_out p' = T_out p
       \<and> s_out p' = s_out p \<and> N_iP p' = N_iP p"
proof -
  let ?g = "\<lambda>q. (T_in q, p_in q, p_out q, mf q, medium q, h_in q, s_in q, s_out_s q, h_out_s q,
      T_out_s q, rho_in q, V_in q, eta_iP q, h_out q, T_out q, s_out q, N_iP q)"
  have "?g (fst (off_design cp pw T_off p_off po_off m_off p)) = ?g p"
    unfolding off_design_def off_design_body_def by (rule run_frame) (auto intro!: assign_frame)
  then show ?thesis using assms by simp
qed

text \<open>The water pump taken off design.\<close>

theorem C7_witness:
  "off_design stub rounded_pow (Finite False 25) (Finite False 100) (Finite False 500) (Finite False 1)
     powered_pump = (off_pump, None)
   \<and> T_in off_pump = T_in powered_pump \<and> p_in off_pump = p_in powered_pump
   \<and> p_out off_pump = p_out powered_pump \<and> mf off_pump = mf powered_pump
   \<and> medium off_pump = medium powered_pump \<and> h_in off_pump = h_in powered_pump
   \<and> s_in off_pump = s_in powered_pump \<and> s_out_s off_pump = s_out_s powered_pump
   \<and> h_out_s off_pump = h_out_s powered_pump \<and> T_out_s off_pump = T_out_s powered_pump
   \<and> rho_in off_pump = rho_in powered_pump \<and> V_in off_pump = V_in powered_pump
   \<and> eta_iP off_pump = eta_iP powered_pump \<and> h_out off_pump = h_out powered_pump
   \<and> T_out off_pump = T_out powered_pump \<and> s_out off_pump = s_out powered_pump
   \<and> N_iP off_pump = N_iP powered_pump"
  using C7_off_design_frame [OF off_pump_run] off_pump_run by simp




text \<open>
  C9. \<^verbatim>\<open>power\<close> is idempotent: calling it a second time with the same efficiency, on
  the object the first call left, ends the same way and leaves the same object, whether
  the first call succeeded or failed. The backend is a function of its arguments.
\<close>

theorem C9_power_idempotent:
  "power_pump cp eta (fst (power_pump cp eta p)) = power_pump cp eta p"
  using power_rerun [of cp eta p "fst (power_pump cp eta p)" "snd (power_pump cp eta p)"]
  by simp

text \<open>The water pump powered twice at 0.5.\<close>

theorem C9_witness:
  "power_pump stub (Finite False (1 / 2))
     (fst (power_pump stub (Finite False (1 / 2)) (stub_pump ''Water'')))
   = power_pump stub (Finite False (1 / 2)) (stub_pump ''Water'')"
  using C9_power_idempotent [of stub "Finite False (1 / 2)" "stub_pump ''Water''"] by simp

text \<open>
  C10, as amended. A call of \<^verbatim>\<open>off_design\<close> on a constructed pump before any call of
  \<^verbatim>\<open>power\<close> never returns normally and never assigns \<^verbatim>\<open>eta_iP_off\<close>. When the five
  lookups of the off-design inlet state succeed, the density \<^verbatim>\<open>rho_in_off\<close> and the
  off-design flow \<^verbatim>\<open>V_in_off\<close> are not zero and the powers of the flow ratio do not
  overflow, the call reaches the read of the missing \<^verbatim>\<open>eta_iP\<close> and fails there with
  \<^verbatim>\<open>AttributeError\<close>, with the fields \<^verbatim>\<open>T_in_off\<close> to \<^verbatim>\<open>V_in_off\<close> assigned. In every
  other case it has failed before that read: with the backend's exception, with
  \<^verbatim>\<open>ZeroDivisionError\<close> or with \<^verbatim>\<open>OverflowError\<close>.
\<close>

theorem C10_off_design_before_power:
  assumes "off_design cp pw a b c d p = (p', r)"
    and "eta_iP p = None" and "V_in p = Some v" and "medium p = Some md"
  shows "(cp ''Hmass'' ''T'' (fadd a (lit 273.15)) ''P'' (fmul b (Finite False 1000)) md = Inr y1
          \<and> cp ''Smass'' ''T'' (fadd a (lit 273.15)) ''P'' (fmul b (Finite False 1000)) md = Inr y2
          \<and> cp ''Hmass'' ''Smass'' (fmul (fquot y2 (Finite False 1000)) (Finite False 1000)) ''P''
         (fmul c (Finite False 1000)) md = Inr y3
          \<and> cp ''T'' ''Smass'' (fmul (fquot y2 (Finite False 1000)) (Finite False 1000)) ''P''
         (fmul c (Finite False 1000)) md = Inr y4
          \<and> cp ''Dmass'' ''Hmass'' (fmul (fquot y1 (Finite False 1000)) (Finite False 1000)) ''P''
         (fmul b (Finite False 1000)) md = Inr rho
          \<and> \<not> is_zero rho \<and> \<not> is_zero (fquot d rho)
          \<and> correction pw (fquot v (fquot d rho)) = Inr f
          \<longrightarrow> r = Some (AttributeError ''eta_iP'')
          \<and> T_in_off p' = Some a \<and> p_in_off p' = Some b \<and> p_out_off p' = Some c
          \<and> mf_off p' = Some d
          \<and> h_in_off p' = Some (fquot y1 (Finite False 1000))
          \<and> s_in_off p' = Some (fquot y2 (Finite False 1000))
          \<and> s_out_s_off p' = Some (fquot y2 (Finite False 1000))
          \<and> h_out_s_off p' = Some (fquot y3 (Finite False 1000))
          \<and> T_out_s_off p' = Some (fsub y4 (lit 273.15))
          \<and> rho_in_off p' = Some rho \<and> V_in_off p' = Some (fquot d rho))
       \<and> (r = Some (AttributeError ''eta_iP'') \<longrightarrow>
            (\<exists>y1 y2 y3 y4 rho f.
          cp ''Hmass'' ''T'' (fadd a (lit 273.15)) ''P'' (fmul b (Finite False 1000)) md = Inr y1
          \<and> cp ''Smass'' ''T'' (fadd a (lit 273.15)) ''P'' (fmul b (Finite False 1000)) md = Inr y2
          \<and> cp ''Hmass'' ''Smass'' (fmul (fquot y2 (Finite False 1000)) (Finite False 1000)) ''P''
         (fmul c (Finite False 1000)) md = Inr y3
          \<and> cp ''T'' ''Smass'' (fmul (fquot y2 (Finite False 1000)) (Finite False 1000)) ''P''
         (fmul c (Finite False 1000)) md = Inr y4
          \<and> cp ''Dmass'' ''Hmass'' (fmul (fquot y1 (Finite False 1000)) (Finite False 1000)) ''P''
         (fmul b (Finite False 1000)) md = Inr rho
          \<and> \<not> is_zero rho \<and> \<not> is_zero (fquot d rho)
          \<and> correction pw (fquot v (fquot d rho)) = Inr f))
       \<and> (r = Some (AttributeError ''eta_iP'') \<or> (\<exists>x. r = Some (BackendError x))
            \<or> r = Some ZeroDivisionError \<or> r = Some OverflowError)
       \<and> eta_iP_off p' = eta_iP_off p"
proof -
  have A: "cp ''Hmass'' ''T'' (fadd a (lit 273.15)) ''P'' (fmul b (Finite False 1000)) md = Inr y1
          \<and> cp ''Smass'' ''T'' (fadd a (lit 273.15)) ''P'' (fmul b (Finite False 1000)) md = Inr y2
          \<and> cp ''Hmass'' ''Smass'' (fmul (fquot y2 (Finite False 1000)) (Finite False 1000)) ''P''
         (fmul c (Finite False 1000)) md = Inr y3
          \<and> cp ''T'' ''Smass'' (fmul (fquot y2 (Finite False 1000)) (Finite False 1000)) ''P''
         (fmul c (Finite False 1000)) md = Inr y4
          \<and> cp ''Dmass'' ''Hmass'' (fmul (fquot y1 (Finite False 1000)) (Finite False 1000)) ''P''
         (fmul b (Finite False 1000)) md = Inr rho
          \<and> \<not> is_zero rho \<and> \<not> is_zero (fquot d rho)
          \<and> correction pw (fquot v (fquot d rho)) = Inr f
          \<longrightarrow> r = Some (AttributeError ''eta_iP'')
          \<and> T_in_off p' = Some a \<and> p_in_off p' = Some b \<and> p_out_off p' = Some c
          \<and> mf_off p' = Some d
          \<and> h_in_off p' = Some (fquot y1 (Finite False 1000))
          \<and> s_in_off p' = Some (fquot y2 (Finite False 1000))
          \<and> s_out_s_off p' = Some (fquot y2 (Finite False 1000))
          \<and> h_out_s_off p' = Some (fquot y3 (Finite False 1000))
          \<and> T_out_s_off p' = Some (fsub y4 (lit 273.15))
          \<and> rho_in_off p' = Some rho \<and> V_in_off p' = Some (fquot d rho)"
  proof
    assume h: "cp ''Hmass'' ''T'' (fadd a (lit 273.15)) ''P'' (fmul b (Finite False 1000)) md = Inr y1
          \<and> cp ''Smass'' ''T'' (fadd a (lit 273.15)) ''P'' (fmul b (Finite False 1000)) md = Inr y2
          \<and> cp ''Hmass'' ''Smass'' (fmul (fquot y2 (Finite False 1000)) (Finite False 1000)) ''P''
         (fmul c (Finite False 1000)) md = Inr y3
          \<and> cp ''T'' ''Smass'' (fmul (fquot y2 (Finite False 1000)) (Finite False 1000)) ''P''
         (fmul c (Finite False 1000)) md = Inr y4
          \<and> cp ''Dmass'' ''Hmass'' (fmul (fquot y1 (Finite False 1000)) (Finite False 1000)) ''P''
         (fmul b (Finite False 1000)) md = Inr rho
          \<and> \<not> is_zero rho \<and> \<not> is_zero (fquot d rho)
          \<and> correction pw (fquot v (fquot d rho)) = Inr f"
    have "off_design cp pw a b c d p =
      (p\<lparr>T_in_off := Some a, p_in_off := Some b, p_out_off := Some c, mf_off := Some d,
         h_in_off := Some (fquot y1 (Finite False 1000)),
         s_in_off := Some (fquot y2 (Finite False 1000)),
         s_out_s_off := Some (fquot y2 (Finite False 1000)),
         h_out_s_off := Some (fquot y3 (Finite False 1000)),
         T_out_s_off := Some (fsub y4 (lit 273.15)),
         rho_in_off := Some rho, V_in_off := Some (fquot d rho)\<rparr>,
       Some (AttributeError ''eta_iP''))"
      using assms(2,3,4) h by (elim conjE) (rule off_design_missing_eta; assumption)
    with assms(1) show "r = Some (AttributeError ''eta_iP'')
          \<and> T_in_off p' = Some a \<and> p_in_off p' = Some b \<and> p_out_off p' = Some c
          \<and> mf_off p' = Some d
          \<and> h_in_off p' = Some (fquot y1 (Finite False 1000))
          \<and> s_in_off p' = Some (fquot y2 (Finite False 1000))
          \<and> s_out_s_off p' = Some (fquot y2 (Finite False 1000))
          \<and> h_out_s_off p' = Some (fquot y3 (Finite False 1000))
          \<and> T_out_s_off p' = Some (fsub y4 (lit 273.15))
          \<and> rho_in_off p' = Some rho \<and> V_in_off p' = Some (fquot d rho)"
      by auto
  qed
  have B: "r = Some (AttributeError ''eta_iP'') \<longrightarrow>
            (\<exists>y1 y2 y3 y4 rho f.
          cp ''Hmass'' ''T'' (fadd a (lit 273.15)) ''P'' (fmul b (Finite False 1000)) md = Inr y1
          \<and> cp ''Smass'' ''T'' (fadd a (lit 273.15)) ''P'' (fmul b (Finite False 1000)) md = Inr y2
          \<and> cp ''Hmass'' ''Smass'' (fmul (fquot y2 (Finite False 1000)) (Finite False 1000)) ''P''
         (fmul c (Finite False 1000)) md = Inr y3
          \<and> cp ''T'' ''Smass'' (fmul (fquot y2 (Finite False 1000)) (Finite False 1000)) ''P''
         (fmul c (Finite False 1000)) md = Inr y4
          \<and> cp ''Dmass'' ''Hmass'' (fmul (fquot y1 (Finite False 1000)) (Finite False 1000)) ''P''
         (fmul b (Finite False 1000)) md = Inr rho
          \<and> \<not> is_zero rho \<and> \<not> is_zero (fquot d rho)
          \<and> correction pw (fquot v (fquot d rho)) = Inr f)"
  proof
    assume "r = Some (AttributeError ''eta_iP'')"
    with assms(1) have "off_design cp pw a b c d p = (p', Some (AttributeError ''eta_iP''))"
      by simp
    then show "\<exists>y1 y2 y3 y4 rho f.
          cp ''Hmass'' ''T'' (fadd a (lit 273.15)) ''P'' (fmul b (Finite False 1000)) md = Inr y1
          \<and> cp ''Smass'' ''T'' (fadd a (lit 273.15)) ''P'' (fmul b (Finite False 1000)) md = Inr y2
          \<and> cp ''Hmass'' ''Smass'' (fmul (fquot y2 (Finite False 1000)) (Finite False 1000)) ''P''
         (fmul c (Finite False 1000)) md = Inr y3
          \<and> cp ''T'' ''Smass'' (fmul (fquot y2 (Finite False 1000)) (Finite False 1000)) ''P''
         (fmul c (Finite False 1000)) md = Inr y4
          \<and> cp ''Dmass'' ''Hmass'' (fmul (fquot y1 (Finite False 1000)) (Finite False 1000)) ''P''
         (fmul b (Finite False 1000)) md = Inr rho
          \<and> \<not> is_zero rho \<and> \<not> is_zero (fquot d rho)
          \<and> correction pw (fquot v (fquot d rho)) = Inr f"
      using assms(3,4) by (rule off_design_eta_error)
  qed
  have C: "(r = Some (AttributeError ''eta_iP'') \<or> (\<exists>x. r = Some (BackendError x))
            \<or> r = Some ZeroDivisionError \<or> r = Some OverflowError)
       \<and> eta_iP_off p' = eta_iP_off p"
    using off_design_outcomes [OF assms] off_design_no_eta [OF assms(1,2)] by blast
  from B C have BC: "(r = Some (AttributeError ''eta_iP'') \<longrightarrow>
            (\<exists>y1 y2 y3 y4 rho f.
          cp ''Hmass'' ''T'' (fadd a (lit 273.15)) ''P'' (fmul b (Finite False 1000)) md = Inr y1
          \<and> cp ''Smass'' ''T'' (fadd a (lit 273.15)) ''P'' (fmul b (Finite False 1000)) md = Inr y2
          \<and> cp ''Hmass'' ''Smass'' (fmul (fquot y2 (Finite False 1000)) (Finite False 1000)) ''P''
         (fmul c (Finite False 1000)) md = Inr y3
          \<and> cp ''T'' ''Smass'' (fmul (fquot y2 (Finite False 1000)) (Finite False 1000)) ''P''
         (fmul c (Finite False 1000)) md = Inr y4
          \<and> cp ''Dmass'' ''Hmass'' (fmul (fquot y1 (Finite False 1000)) (Finite False 1000)) ''P''
         (fmul b (Finite False 1000)) md = Inr rho
          \<and> \<not> is_zero rho \<and> \<not> is_zero (fquot d rho)
          \<and> correction pw (fquot v (fquot d rho)) = Inr f))
       \<and> (r = Some (AttributeError ''eta_iP'') \<or> (\<exists>x. r = Some (BackendError x))
            \<or> r = Some ZeroDivisionError \<or> r = Some OverflowError)
       \<and> eta_iP_off p' = eta_iP_off p"
    by (rule conjI)
  from A BC show ?thesis by (rule conjI)
qed

text \<open>
  The water pump taken off design before any \<^verbatim>\<open>power\<close>, at its own design point: every
  condition holds, and the call ends at the read of \<^verbatim>\<open>eta_iP\<close>.
\<close>

theorem C10_witness:
  "off_design stub rounded_pow (Finite False 25) (Finite False 100) (Finite False 500)
     (Finite False 1) (stub_pump ''Water'') = (early_pump, Some (AttributeError ''eta_iP''))
   \<and> eta_iP (stub_pump ''Water'') = None
   \<and> V_in (stub_pump ''Water'') = Some (Finite False (1152921504606847 / 1152921504606846976))
   \<and> medium (stub_pump ''Water'') = Some ''Water''
   \<and> stub ''Hmass'' ''T'' (fadd (Finite False 25) (lit 273.15)) ''P'' (fmul (Finite False 100) (Finite False 1000)) ''Water'' = Inr (Finite False 104920)
   \<and> stub ''Smass'' ''T'' (fadd (Finite False 25) (lit 273.15)) ''P'' (fmul (Finite False 100) (Finite False 1000)) ''Water'' = Inr (Finite False 367)
   \<and> stub ''Hmass'' ''Smass'' (fmul (fquot (Finite False 367) (Finite False 1000)) (Finite False 1000)) ''P''
         (fmul (Finite False 500) (Finite False 1000)) ''Water'' = Inr (Finite False 105320)
   \<and> stub ''T'' ''Smass'' (fmul (fquot (Finite False 367) (Finite False 1000)) (Finite False 1000)) ''P''
         (fmul (Finite False 500) (Finite False 1000)) ''Water'' = Inr (Finite False 298)
   \<and> stub ''Dmass'' ''Hmass'' (fmul (fquot (Finite False 104920) (Finite False 1000)) (Finite False 1000)) ''P''
         (fmul (Finite False 100) (Finite False 1000)) ''Water'' = Inr (Finite False 1000)
   \<and> \<not> is_zero (Finite False 1000)
   \<and> \<not> is_zero (fquot (Finite False 1) (Finite False 1000))
   \<and> correction rounded_pow (fquot (Finite False (1152921504606847 / 1152921504606846976))
         (fquot (Finite False 1) (Finite False 1000))) = Inr (Finite False 1)
   \<and> T_in_off early_pump = Some (Finite False 25) \<and> p_in_off early_pump = Some (Finite False 100)
   \<and> p_out_off early_pump = Some (Finite False 500)
   \<and> mf_off early_pump = Some (Finite False 1)
   \<and> h_in_off early_pump = Some (fquot (Finite False 104920) (Finite False 1000))
   \<and> s_in_off early_pump = Some (fquot (Finite False 367) (Finite False 1000))
   \<and> s_out_s_off early_pump = Some (fquot (Finite False 367) (Finite False 1000))
   \<and> h_out_s_off early_pump = Some (fquot (Finite False 105320) (Finite False 1000))
   \<and> T_out_s_off early_pump = Some (fsub (Finite False 298) (lit 273.15))
   \<and> rho_in_off early_pump = Some (Finite False 1000)
   \<and> V_in_off early_pump = Some (fquot (Finite False 1) (Finite False 1000))
   \<and> eta_iP_off early_pump = eta_iP_off (stub_pump ''Water'')"
proof -
  have l1: "stub ''Hmass'' ''T'' (fadd (Finite False 25) (lit 273.15)) ''P'' (fmul (Finite False 100) (Finite False 1000)) ''Water'' = Inr (Finite False 104920)"
    and l2: "stub ''Smass'' ''T'' (fadd (Finite False 25) (lit 273.15)) ''P'' (fmul (Finite False 100) (Finite False 1000)) ''Water'' = Inr (Finite False 367)"
    and l3: "stub ''Hmass'' ''Smass'' (fmul (fquot (Finite False 367) (Finite False 1000)) (Finite False 1000)) ''P''
         (fmul (Finite False 500) (Finite False 1000)) ''Water'' = Inr (Finite False 105320)"
    and l4: "stub ''T'' ''Smass'' (fmul (fquot (Finite False 367) (Finite False 1000)) (Finite False 1000)) ''P''
         (fmul (Finite False 500) (Finite False 1000)) ''Water'' = Inr (Finite False 298)"
    and l5: "stub ''Dmass'' ''Hmass'' (fmul (fquot (Finite False 104920) (Finite False 1000)) (Finite False 1000)) ''P''
         (fmul (Finite False 100) (Finite False 1000)) ''Water'' = Inr (Finite False 1000)"
    by (simp_all add: stub_def)
  have nz: "\<not> is_zero (Finite False 1000)" by simp
  have w: "fquot (Finite False 1) (Finite False 1000) = Finite False (1152921504606847 / 1152921504606846976)"
    by (simp add: round_V_in)
  have nzw: "\<not> is_zero (fquot (Finite False 1) (Finite False 1000))"
    unfolding w by simp
  have f: "correction rounded_pow (fquot (Finite False (1152921504606847 / 1152921504606846976))
         (fquot (Finite False 1) (Finite False 1000))) = Inr (Finite False 1)"
    unfolding w by (simp add: round_1 correction_one)
  have cond: "stub ''Hmass'' ''T'' (fadd (Finite False 25) (lit 273.15)) ''P'' (fmul (Finite False 100) (Finite False 1000)) ''Water'' = Inr (Finite False 104920)
   \<and> stub ''Smass'' ''T'' (fadd (Finite False 25) (lit 273.15)) ''P'' (fmul (Finite False 100) (Finite False 1000)) ''Water'' = Inr (Finite False 367)
   \<and> stub ''Hmass'' ''Smass'' (fmul (fquot (Finite False 367) (Finite False 1000)) (Finite False 1000)) ''P''
         (fmul (Finite False 500) (Finite False 1000)) ''Water'' = Inr (Finite False 105320)
   \<and> stub ''T'' ''Smass'' (fmul (fquot (Finite False 367) (Finite False 1000)) (Finite False 1000)) ''P''
         (fmul (Finite False 500) (Finite False 1000)) ''Water'' = Inr (Finite False 298)
   \<and> stub ''Dmass'' ''Hmass'' (fmul (fquot (Finite False 104920) (Finite False 1000)) (Finite False 1000)) ''P''
         (fmul (Finite False 100) (Finite False 1000)) ''Water'' = Inr (Finite False 1000)
   \<and> \<not> is_zero (Finite False 1000)
   \<and> \<not> is_zero (fquot (Finite False 1) (Finite False 1000))
   \<and> correction rounded_pow (fquot (Finite False (1152921504606847 / 1152921504606846976))
         (fquot (Finite False 1) (Finite False 1000))) = Inr (Finite False 1)"
    using l1 l2 l3 l4 l5 nz nzw f by blast
  note t = C10_off_design_before_power [where ?y1.0 = "Finite False 104920"
      and ?y2.0 = "Finite False 367" and ?y3.0 = "Finite False 105320"
      and ?y4.0 = "Finite False 298" and rho = "Finite False 1000" and f = "Finite False 1",
      OF early_pump_run stub_pump_Water(7) stub_pump_Water(6) stub_pump_Water(1)]
  note a = mp [OF t [THEN conjunct1] cond]
  note e = t [THEN conjunct2, THEN conjunct2, THEN conjunct2]
  show ?thesis
    using early_pump_run stub_pump_Water(7) stub_pump_Water(6) stub_pump_Water(1) cond
      a [THEN conjunct2] e
    by blast
qed

text \<open>
  The same call with the mass flow \<open>0.0\<close>: the off-design flow is zero, the flow ratio
  raises \<^verbatim>\<open>ZeroDivisionError\<close>, and the read of \<^verbatim>\<open>eta_iP\<close> is never reached.
\<close>

theorem C10_counterexample:
  "eta_iP (stub_pump ''Water'') = None
   \<and> snd (off_design stub rounded_pow (Finite False 25) (Finite False 100) (Finite False 500)
            (Finite False 0) (stub_pump ''Water'')) = Some ZeroDivisionError"
  by (simp add: zero_flow_run stub_pump_Water)

end
